theory Spec2Isabelle
  imports Complex_Main "HOL-Library.Word" "HOL-Library.Multiset"
begin

section \<open>ESP32 seismograph: event detection and event records\<close>

text \<open>
  A shallow embedding of the detection pipeline of the ESP32 seismograph firmware:
  the class \<open>TimeManager\<close> (wall-clock trust), the class \<open>Seismograph\<close> (calibration,
  spike filter, STA/LTA trigger, adaptive thresholds, event life cycle, magnitude model)
  and the part of \<open>DataLogger\<close> and \<open>DualCoreManager\<close> that receives an event.

  Conventions of the model.
  \<^item> \<open>unsigned long\<close> is 32 bits wide on the ESP32: the value of \<open>millis()\<close>, the epoch
    time and the counters are \<open>32 word\<close>, so that \<open>+\<close> and \<open>-\<close> wrap around as in C.
  \<^item> \<open>float\<close> is modelled by \<open>real\<close>: sums, quotients, \<open>sqrt\<close>, \<open>log10\<close> and \<open>pow\<close> are
    exact, there is no rounding, no infinity and no NaN (so \<open>isnan\<close> is \<open>False\<close>). The
    one exception is \<open>checkEventTrigger\<close>, whose result depends on a strict comparison
    of a quotient of quotients: its three divisions round to the nearest \<open>float\<close>.
  \<^item> Every call of \<open>millis()\<close> is an input of the model: the functions take the value
    that the call returns as an argument, or as a field of the record \<open>env\<close>.
  \<^item> Output on the serial console, and the static variables that only pace that
    output, are left out. They do not influence the state of the detector.
\<close>

subsection \<open>Configuration (config.h)\<close>

type_synonym ulong = "32 word"

definition THRESHOLD_MICRO :: real where "THRESHOLD_MICRO = 0.001"
definition THRESHOLD_LIGHT :: real where "THRESHOLD_LIGHT = 0.005"
definition THRESHOLD_STRONG :: real where "THRESHOLD_STRONG = 0.02"
definition STA_WINDOW :: nat where "STA_WINDOW = 25"
definition LTA_WINDOW :: nat where "LTA_WINDOW = 2500"
definition STA_LTA_RATIO :: real where "STA_LTA_RATIO = 2.5"
definition MIN_EVENT_DURATION :: ulong where "MIN_EVENT_DURATION = 100"
definition NTP_SYNC_INTERVAL :: ulong where "NTP_SYNC_INTERVAL = 3600000"
definition MPU6050_ACCEL_SCALE :: real where "MPU6050_ACCEL_SCALE = 16384"
definition LOCAL_MAGNITUDE_OFFSET :: real where "LOCAL_MAGNITUDE_OFFSET = 0"
definition SPIKE_MEDIAN_MULTIPLIER :: real where "SPIKE_MEDIAN_MULTIPLIER = 5"
definition SPIKE_THRESHOLD_MULTIPLIER :: real where "SPIKE_THRESHOLD_MULTIPLIER = 2"

lemmas config_defs =
  THRESHOLD_MICRO_def THRESHOLD_LIGHT_def THRESHOLD_STRONG_def STA_WINDOW_def
  LTA_WINDOW_def STA_LTA_RATIO_def MIN_EVENT_DURATION_def NTP_SYNC_INTERVAL_def
  MPU6050_ACCEL_SCALE_def LOCAL_MAGNITUDE_OFFSET_def SPIKE_MEDIAN_MULTIPLIER_def
  SPIKE_THRESHOLD_MULTIPLIER_def

text \<open>Arduino's macro \<open>constrain(amt, low, high)\<close>:
  \<^verbatim>\<open>((amt)<(low)?(low):((amt)>(high)?(high):(amt)))\<close>.\<close>

definition constrain :: "'a::linorder \<Rightarrow> 'a \<Rightarrow> 'a \<Rightarrow> 'a" where
  "constrain amt low high = (if amt < low then low else if amt > high then high else amt)"

subsection \<open>TimeManager\<close>

record time_manager =
  tm_initialized :: bool
  lastSync :: ulong
  bootTime :: ulong

text \<open>The constructor.\<close>

definition TimeManager :: time_manager where
  "TimeManager = \<lparr> tm_initialized = False, lastSync = 0, bootTime = 0 \<rparr>"

text \<open>\<open>syncWithNTP\<close> asks three servers in turn; \<open>replies\<close> holds the results of the three
  calls of \<open>forceUpdate()\<close> and \<open>now\<close> the value of \<open>millis()\<close> at the successful one.\<close>

definition syncWithNTP :: "bool \<times> bool \<times> bool \<Rightarrow> ulong \<Rightarrow> time_manager \<Rightarrow> bool \<times> time_manager" where
  "syncWithNTP replies now t =
     (case replies of (r1, r2, r3) \<Rightarrow>
        if r1 then (True, t\<lparr>lastSync := now\<rparr>)
        else if r2 then (True, t\<lparr>lastSync := now\<rparr>)
        else if r3 then (True, t\<lparr>lastSync := now\<rparr>)
        else (False, t))"

text \<open>\<open>getEpochTime\<close>: \<open>ntpEpoch\<close> is what \<open>timeClient.getEpochTime()\<close> returns.\<close>

definition getEpochTime :: "ulong \<Rightarrow> ulong \<Rightarrow> time_manager \<Rightarrow> ulong" where
  "getEpochTime ntpEpoch now t =
     (if \<not> tm_initialized t then bootTime t + now div 1000 else ntpEpoch)"

definition isTimeValid :: "ulong \<Rightarrow> time_manager \<Rightarrow> bool" where
  "isTimeValid now t = (tm_initialized t \<and> now - lastSync t < NTP_SYNC_INTERVAL * 2)"

text \<open>\<open>begin\<close>, given that WiFi is connected (otherwise it returns \<open>false\<close> at once).\<close>

definition tm_begin :: "bool \<Rightarrow> bool \<times> bool \<times> bool \<Rightarrow> ulong \<Rightarrow> ulong \<Rightarrow> time_manager \<Rightarrow> bool \<times> time_manager" where
  "tm_begin wifi replies ntpEpoch now t =
     (if \<not> wifi then (False, t)
      else case syncWithNTP replies now t of
        (True, t') \<Rightarrow>
          (let t'' = t'\<lparr>tm_initialized := True\<rparr>
           in (True, t''\<lparr>bootTime := getEpochTime ntpEpoch now t'' - now div 1000\<rparr>))
      | (False, t') \<Rightarrow> (False, t'\<lparr>tm_initialized := False\<rparr>))"

subsection \<open>The state of the class Seismograph\<close>

record seismograph =
  initialized :: bool
  offsetX :: real
  offsetY :: real
  offsetZ :: real
  calibrated :: bool
  staBuffer :: "real list"
  ltaBuffer :: "real list"
  staIndex :: nat
  ltaIndex :: nat
  staSum :: real
  ltaSum :: real
  staFull :: bool
  ltaFull :: bool
  eventActive :: bool
  eventStartTime :: ulong
  eventMaxMagnitude :: real
  eventSumMagnitude :: real
  eventSampleCount :: int
  adaptiveThresholdMicro :: real
  adaptiveThresholdLight :: real
  adaptiveThresholdStrong :: real
  backgroundNoise :: real
  lastAdaptiveUpdate :: ulong
  adaptiveThresholdEnabled :: bool
  lastMagnitudes :: "real list"
  magnitudeIndex :: nat
  magnitudeBufferFull :: bool
  totalSamples :: ulong
  eventsDetected :: ulong
  spikesFiltered :: ulong
  lastMagnitude :: real
  lastCalibrationOffsets :: "real list"
  lastCalibrationTime :: ulong
  baselineLTA :: real
  lastDriftCheck :: ulong
  calibrationValid :: bool
  detailedLoggingEnabled :: bool

text \<open>The constructor \<open>Seismograph::Seismograph()\<close>.\<close>

definition Seismograph :: seismograph where
  "Seismograph = \<lparr>
     initialized = False,
     offsetX = 0, offsetY = 0, offsetZ = 0,
     calibrated = False,
     staBuffer = replicate STA_WINDOW 0,
     ltaBuffer = replicate LTA_WINDOW 0,
     staIndex = 0, ltaIndex = 0,
     staSum = 0, ltaSum = 0,
     staFull = False, ltaFull = False,
     eventActive = False,
     eventStartTime = 0,
     eventMaxMagnitude = 0, eventSumMagnitude = 0,
     eventSampleCount = 0,
     adaptiveThresholdMicro = THRESHOLD_MICRO,
     adaptiveThresholdLight = THRESHOLD_LIGHT,
     adaptiveThresholdStrong = THRESHOLD_STRONG,
     backgroundNoise = 0.001,
     lastAdaptiveUpdate = 0,
     adaptiveThresholdEnabled = True,
     lastMagnitudes = replicate 5 0,
     magnitudeIndex = 0,
     magnitudeBufferFull = False,
     totalSamples = 0, eventsDetected = 0, spikesFiltered = 0,
     lastMagnitude = 0,
     lastCalibrationOffsets = [0, 0, 0],
     lastCalibrationTime = 0,
     baselineLTA = 0,
     lastDriftCheck = 0,
     calibrationValid = False,
     detailedLoggingEnabled = False \<rparr>"

subsection \<open>STA/LTA\<close>

text \<open>\<open>updateSTALTA\<close> consists of two blocks, the update of the short-term average and
  the update of the long-term average, which run one after the other.\<close>

definition updateSTA :: "real \<Rightarrow> seismograph \<Rightarrow> seismograph" where
  "updateSTA magnitude s =
     (let s1 = s\<lparr>staSum := staSum s - staBuffer s ! staIndex s\<rparr>;
          s2 = s1\<lparr>staBuffer := (staBuffer s1)[staIndex s1 := magnitude]\<rparr>;
          s3 = s2\<lparr>staSum := staSum s2 + magnitude\<rparr>;
          s4 = s3\<lparr>staIndex := (staIndex s3 + 1) mod STA_WINDOW\<rparr>
      in if staIndex s4 = 0 then s4\<lparr>staFull := True\<rparr> else s4)"

definition updateLTA :: "real \<Rightarrow> seismograph \<Rightarrow> seismograph" where
  "updateLTA magnitude s =
     (let s1 = s\<lparr>ltaSum := ltaSum s - ltaBuffer s ! ltaIndex s\<rparr>;
          s2 = s1\<lparr>ltaBuffer := (ltaBuffer s1)[ltaIndex s1 := magnitude]\<rparr>;
          s3 = s2\<lparr>ltaSum := ltaSum s2 + magnitude\<rparr>;
          s4 = s3\<lparr>ltaIndex := (ltaIndex s3 + 1) mod LTA_WINDOW\<rparr>
      in if ltaIndex s4 = 0 then s4\<lparr>ltaFull := True\<rparr> else s4)"

definition updateSTALTA :: "real \<Rightarrow> seismograph \<Rightarrow> seismograph" where
  "updateSTALTA magnitude s = updateLTA magnitude (updateSTA magnitude s)"

text \<open>Feeding a sequence of admitted magnitudes, one call of \<open>updateSTALTA\<close> each.\<close>

definition feedSTALTA :: "real list \<Rightarrow> seismograph \<Rightarrow> seismograph" where
  "feedSTALTA ms s = foldl (\<lambda>st m. updateSTALTA m st) s ms"

text \<open>Rounding to \<open>float\<close>, the binary32 format of IEEE 754: 24 significant bits, the
  exponents \<open>-126\<close> to \<open>127\<close>, round to nearest, ties to even. \<open>pow2 e\<close> is the power of
  two with the exponent \<open>e\<close>.\<close>

definition pow2 :: "int \<Rightarrow> real" where
  "pow2 e = (if 0 \<le> e then 2 ^ nat e else 1 / 2 ^ nat (- e))"

text \<open>\<open>exponentFrom n a\<close> is the greatest exponent \<open>e\<close> from \<open>-125\<close> to \<open>n - 126\<close> with
  \<open>pow2 e \<le> a\<close>, and \<open>-126\<close>, the exponent of the least normal and of the subnormal
  numbers, when there is none.\<close>

fun exponentFrom :: "nat \<Rightarrow> real \<Rightarrow> int" where
  "exponentFrom 0 a = - 126"
| "exponentFrom (Suc n) a =
     (if pow2 (int (Suc n) - 126) \<le> a then int (Suc n) - 126 else exponentFrom n a)"

definition roundHalfEven :: "real \<Rightarrow> int" where
  "roundHalfEven y =
     (let f = \<lfloor>y\<rfloor>; r = y - of_int f
      in if r < 1 / 2 then f else if r > 1 / 2 then f + 1 else if even f then f else f + 1)"

text \<open>\<open>fl32 x\<close> is the multiple of the unit in the last place of \<open>x\<close> that is nearest to
  \<open>x\<close>. A result of magnitude \<open>2 ^ 128\<close> or more stands for the infinity of its sign: it
  compares with 0 and with 2.5 as the infinity does.\<close>

definition fl32 :: "real \<Rightarrow> real" where
  "fl32 x =
     (let e = exponentFrom 253 \<bar>x\<bar>;
          ulp = pow2 (e - 23)
      in of_int (roundHalfEven (x / ulp)) * ulp)"

text \<open>The division of two floats, rounded to a float; \<open>None\<close> stands for a division
  whose divisor is zero.\<close>

definition fdiv :: "real \<Rightarrow> real \<Rightarrow> real option" where
  "fdiv a b = (if b = 0 then None else Some (fl32 (a / b)))"

definition checkEventTrigger :: "seismograph \<Rightarrow> bool option" where
  "checkEventTrigger s =
     (if \<not> staFull s \<or> \<not> ltaFull s then Some False
      else
        Option.bind (fdiv (staSum s) (real STA_WINDOW)) (\<lambda>sta.
        Option.bind (fdiv (ltaSum s) (real LTA_WINDOW)) (\<lambda>lta.
          if lta = 0 then Some False
          else Option.bind (fdiv sta lta) (\<lambda>ratio. Some (ratio > STA_LTA_RATIO)))))"


subsection \<open>Magnitude model\<close>

definition calculateRichterMagnitude :: "real \<Rightarrow> real" where
  "calculateRichterMagnitude acceleration =
     (if acceleration \<le> 0 then - 10
      else let pga_mm_s2 = acceleration * 9806.65;
               magnitude = log 10 pga_mm_s2 - LOCAL_MAGNITUDE_OFFSET
           in constrain magnitude (- 2) 10)"

definition calculateLocalMagnitude :: "real \<Rightarrow> real" where
  "calculateLocalMagnitude acceleration =
     (if acceleration \<le> 0 then - 10
      else let velocity_approx = acceleration / (2 * pi * 5);
               local_magnitude = log 10 (velocity_approx * 1000000) - 2;
               local_magnitude2 = local_magnitude - LOCAL_MAGNITUDE_OFFSET
           in constrain local_magnitude2 (- 3) 8)"

definition classifyEvent :: "real \<Rightarrow> int" where
  "classifyEvent magnitude =
     (let richter = calculateRichterMagnitude magnitude
      in if richter \<ge> 7 then 6
         else if richter \<ge> 6 then 5
         else if richter \<ge> 5 then 4
         else if richter \<ge> 4 then 3
         else if richter \<ge> 2 then 2
         else 1)"

definition getEventTypeFromRichter :: "real \<Rightarrow> string" where
  "getEventTypeFromRichter richter =
     (if richter \<ge> 7 then ''Major''
      else if richter \<ge> 6 then ''Strong''
      else if richter \<ge> 5 then ''Moderate''
      else if richter \<ge> 4 then ''Light''
      else if richter \<ge> 2 then ''Minor''
      else ''Micro'')"

definition getIntensityLevelFromRichter :: "real \<Rightarrow> int" where
  "getIntensityLevelFromRichter richter =
     (if richter \<ge> 7 then 6
      else if richter \<ge> 6 then 5
      else if richter \<ge> 5 then 4
      else if richter \<ge> 4 then 3
      else if richter \<ge> 2 then 2
      else 1)"

text \<open>The first range starts with the UTF-8 bytes of the sign "greater or equal".\<close>

definition getRichterRangeFromType :: "string \<Rightarrow> string" where
  "getRichterRangeFromType eventType =
     (if eventType = ''Major'' then [CHR 0xE2, CHR 0x89, CHR 0xA5] @ ''7.0''
      else if eventType = ''Strong'' then ''6.0-7.0''
      else if eventType = ''Moderate'' then ''5.0-6.0''
      else if eventType = ''Light'' then ''4.0-5.0''
      else if eventType = ''Minor'' then ''2.0-4.0''
      else ''<2.0'')"

definition calculateEnergyJoules :: "real \<Rightarrow> real" where
  "calculateEnergyJoules richter =
     (if richter < - 2 then 0
      else let logEnergy = 11.8 + 1.5 * richter;
               energy = 10 powr logEnergy
           in constrain energy 1 (10 ^ 20))"

definition calculatePeakFrequency :: "real \<Rightarrow> real" where
  "calculatePeakFrequency magnitude =
     (let frequency = 30 - magnitude * 50 in constrain frequency 1 30)"

definition getCalibrationAgeHours :: "ulong \<Rightarrow> seismograph \<Rightarrow> real" where
  "getCalibrationAgeHours now s =
     (if lastCalibrationTime s = 0 then - 1
      else real (unat (now - lastCalibrationTime s)) / (60 * 60 * 1000))"

definition calculatePGAFromRichter :: "real \<Rightarrow> real" where
  "calculatePGAFromRichter richter =
     (let richter2 = (if richter < - 2 \<or> richter > 10 then constrain richter (- 2) 10 else richter);
          pga_mm_s2 = 10 powr (richter2 + LOCAL_MAGNITUDE_OFFSET);
          pga_g = pga_mm_s2 / 9806.65
      in constrain pga_g 0.0001 10)"

text \<open>The conversion of a \<open>float\<close> to \<open>unsigned long\<close> truncates towards zero; it is
  undefined in C++ when the truncated value is not an \<open>unsigned long\<close>: \<open>None\<close>.\<close>

definition float_to_ulong :: "real \<Rightarrow> ulong option" where
  "float_to_ulong x =
     (if - 1 < x \<and> x < 2 ^ 32 then Some (word_of_int (if x < 0 then 0 else \<lfloor>x\<rfloor>)) else None)"

definition calculateEventDuration :: "real \<Rightarrow> ulong option" where
  "calculateEventDuration richter =
     map_option (\<lambda>duration. constrain duration 100 300000)
       (float_to_ulong
          (if richter < 2 then 100 + richter * 200
           else if richter < 4 then 1000 + (richter - 2) * 2000
           else if richter < 6 then 5000 + (richter - 4) * 12500
           else if richter < 7 then 30000 + (richter - 6) * 90000
           else 120000 + (richter - 7) * 180000))"

subsection \<open>Sensor\<close>

record SensorData =
  accelX :: real
  accelY :: real
  accelZ :: real
  magnitude :: real
  timestamp :: ulong

type_synonym raw_motion = "16 word \<times> 16 word \<times> 16 word"

definition calculateMagnitude :: "real \<Rightarrow> real \<Rightarrow> real \<Rightarrow> real" where
  "calculateMagnitude x y z = sqrt (x * x + y * y + z * z)"

text \<open>\<open>readSensor\<close>: \<open>now\<close> is the value of \<open>millis()\<close> and \<open>(ax, ay, az)\<close> the registers that
  \<open>mpu.getMotion6\<close> delivers, each an \<open>int16_t\<close>.\<close>

definition readSensor :: "ulong \<Rightarrow> raw_motion \<Rightarrow> seismograph \<Rightarrow> SensorData \<times> seismograph" where
  "readSensor now rawm s =
     (if \<not> initialized s
      then (\<lparr> accelX = 0, accelY = 0, accelZ = 0, magnitude = 0, timestamp = now \<rparr>, s)
      else case rawm of (ax, ay, az) \<Rightarrow>
        let rawX = real_of_int (sint ax) / MPU6050_ACCEL_SCALE;
            rawY = real_of_int (sint ay) / MPU6050_ACCEL_SCALE;
            rawZ = real_of_int (sint az) / MPU6050_ACCEL_SCALE;
            x = rawX - offsetX s;
            y = rawY - offsetY s;
            z = rawZ - offsetZ s;
            m = calculateMagnitude x y z
        in (\<lparr> accelX = x, accelY = y, accelZ = z, magnitude = m, timestamp = now \<rparr>,
            s\<lparr>lastMagnitude := m, totalSamples := totalSamples s + 1\<rparr>))"

subsection \<open>Spike filter\<close>

text \<open>The inner loop of \<open>getMedianMagnitude\<close>: the index of the first least element of
  \<open>sorted[i..4]\<close>.\<close>

definition minIndexFrom :: "real list \<Rightarrow> nat \<Rightarrow> nat" where
  "minIndexFrom sortedA i =
     fold (\<lambda>j minIdx. if sortedA ! j < sortedA ! minIdx then j else minIdx) [i + 1 ..< 5] i"

definition selectionStep :: "nat \<Rightarrow> real list \<Rightarrow> real list" where
  "selectionStep i sortedA =
     (let minIdx = minIndexFrom sortedA i
      in if minIdx \<noteq> i
         then (let temp = sortedA ! i in (sortedA[i := sortedA ! minIdx])[minIdx := temp])
         else sortedA)"

definition getMedianMagnitude :: "seismograph \<Rightarrow> real" where
  "getMedianMagnitude s =
     (let sortedA = map (\<lambda>i. lastMagnitudes s ! i) [0 ..< 5];
          sortedB = fold selectionStep [0 ..< 3] sortedA
      in sortedB ! 2)"

definition isSpikeFiltered :: "real \<Rightarrow> seismograph \<Rightarrow> bool" where
  "isSpikeFiltered m s =
     (if \<not> magnitudeBufferFull s then False
      else let median = getMedianMagnitude s;
               thresholdMicro = (if adaptiveThresholdEnabled s then adaptiveThresholdMicro s
                                 else THRESHOLD_MICRO);
               exceedsMedian = (m > median * SPIKE_MEDIAN_MULTIPLIER);
               exceedsThreshold = (m > thresholdMicro * SPIKE_THRESHOLD_MULTIPLIER)
           in if exceedsMedian \<and> exceedsThreshold then True else False)"

subsection \<open>Adaptive thresholds and drift\<close>

text \<open>No real number is a NaN.\<close>

definition isnan :: "real \<Rightarrow> bool" where
  "isnan x = False"

definition updateAdaptiveThresholds :: "ulong \<Rightarrow> seismograph \<Rightarrow> seismograph" where
  "updateAdaptiveThresholds currentTime s =
     (if \<not> adaptiveThresholdEnabled s then s
      else if currentTime - lastAdaptiveUpdate s < 30000 then s
      else let s1 = s\<lparr>lastAdaptiveUpdate := currentTime\<rparr>
        in if \<not> ltaFull s1 then s1
           else let lta = ltaSum s1 / real LTA_WINDOW;
                    lta2 = (if isnan lta \<or> lta < 0.0001 then 0.001 else lta);
                    s2 = s1\<lparr>backgroundNoise := lta2\<rparr>;
                    adaptationFactor =
                      (if THRESHOLD_MICRO > 0 \<and> backgroundNoise s2 > 0
                       then 1 + backgroundNoise s2 / THRESHOLD_MICRO else 1);
                    factor = constrain adaptationFactor 0.5 3;
                    micro = THRESHOLD_MICRO * factor;
                    light = THRESHOLD_LIGHT * factor;
                    strong = THRESHOLD_STRONG * factor;
                    micro2 = (if isnan micro \<or> micro \<le> 0 then THRESHOLD_MICRO else micro);
                    light2 = (if isnan light \<or> light \<le> 0 then THRESHOLD_LIGHT else light);
                    strong2 = (if isnan strong \<or> strong \<le> 0 then THRESHOLD_STRONG else strong)
                in s2\<lparr>adaptiveThresholdMicro :=
                         constrain micro2 (THRESHOLD_MICRO * 0.5) (THRESHOLD_MICRO * 3),
                       adaptiveThresholdLight :=
                         constrain light2 (THRESHOLD_LIGHT * 0.5) (THRESHOLD_LIGHT * 3),
                       adaptiveThresholdStrong :=
                         constrain strong2 (THRESHOLD_STRONG * 0.5) (THRESHOLD_STRONG * 3)\<rparr>)"

text \<open>\<open>checkCalibrationDrift\<close> reads \<open>millis()\<close> for the test (\<open>now\<close>) and again for the
  assignment to \<open>lastDriftCheck\<close> (\<open>now2\<close>).\<close>

definition checkCalibrationDrift :: "ulong \<Rightarrow> ulong \<Rightarrow> seismograph \<Rightarrow> seismograph" where
  "checkCalibrationDrift now now2 s =
     (if now - lastDriftCheck s < 300000 then s
      else let s1 = s\<lparr>lastDriftCheck := now2\<rparr>
        in if \<not> calibrationValid s1 \<or> \<not> ltaFull s1 \<or> baselineLTA s1 \<le> 0 then s1
           else let currentLTA = ltaSum s1 / real LTA_WINDOW;
                    driftPercent = ((currentLTA - baselineLTA s1) / baselineLTA s1) * 100;
                    absDriftPercent = \<bar>driftPercent\<bar>;
                    s2 = (if absDriftPercent > 50 then s1\<lparr>calibrationValid := False\<rparr> else s1)
                in if calibrationValid s2 \<and> detailedLoggingEnabled s2
                      \<and> (isnan currentLTA \<or> currentLTA < 0)
                   then s2\<lparr>calibrationValid := False\<rparr> else s2)"


subsection \<open>Calibration\<close>

text \<open>\<open>calibrate\<close> calls \<open>mpu.getMotion6\<close> 260 times: \<open>mpu k\<close> is the result of call number
  \<open>k\<close>. Calls 0 to 49 feed the stability check, calls 50 to 249 the offsets, calls 250
  to 259 the test of the new calibration. \<open>now\<close> is the value of \<open>millis()\<close> stored as
  \<open>lastCalibrationTime\<close>.\<close>

definition toG :: "16 word \<Rightarrow> real" where
  "toG a = real_of_int (sint a) / 16384"

definition readingOf :: "raw_motion \<Rightarrow> real \<times> real \<times> real" where
  "readingOf r = (case r of (ax, ay, az) \<Rightarrow> (toG ax, toG ay, toG az))"

definition compX :: "real \<times> real \<times> real \<Rightarrow> real" where "compX r = fst r"
definition compY :: "real \<times> real \<times> real \<Rightarrow> real" where "compY r = fst (snd r)"
definition compZ :: "real \<times> real \<times> real \<Rightarrow> real" where "compZ r = snd (snd r)"

definition stabilityReadings :: "(nat \<Rightarrow> raw_motion) \<Rightarrow> (real \<times> real \<times> real) list" where
  "stabilityReadings mpu = map (\<lambda>i. readingOf (mpu i)) [0 ..< 50]"

text \<open>The standard deviation of one axis over the 50 stability readings.\<close>

definition stdDev :: "(real \<times> real \<times> real \<Rightarrow> real) \<Rightarrow> (real \<times> real \<times> real) list \<Rightarrow> real" where
  "stdDev axis rs =
     (let mean = sum_list (map axis rs) / 50;
          acc = sum_list (map (\<lambda>r. (axis r - mean) ^ 2) rs)
      in sqrt (acc / 50))"

definition calibrationReadings :: "(nat \<Rightarrow> raw_motion) \<Rightarrow> (real \<times> real \<times> real) list" where
  "calibrationReadings mpu = map (\<lambda>i. readingOf (mpu (50 + i))) [0 ..< 200]"

definition proposedOffset :: "(real \<times> real \<times> real \<Rightarrow> real) \<Rightarrow> (real \<times> real \<times> real) list \<Rightarrow> real" where
  "proposedOffset axis rs = sum_list (map axis rs) / 200"

definition testMagnitude :: "seismograph \<Rightarrow> raw_motion \<Rightarrow> real" where
  "testMagnitude s r =
     (case readingOf r of (x, y, z) \<Rightarrow>
        let testX = x - offsetX s; testY = y - offsetY s; testZ = z - offsetZ s
        in sqrt (testX * testX + testY * testY + testZ * testZ))"

definition calibrate :: "(nat \<Rightarrow> raw_motion) \<Rightarrow> ulong \<Rightarrow> seismograph \<Rightarrow> bool \<times> seismograph" where
  "calibrate mpu now s =
     (let stab = stabilityReadings mpu;
          stdDevX = stdDev compX stab;
          stdDevY = stdDev compY stab;
          stdDevZ = stdDev compZ stab;
          maxStdDev = 0.01
      in if stdDevX > maxStdDev \<or> stdDevY > maxStdDev \<or> stdDevZ > maxStdDev
         then (False, s\<lparr>calibrationValid := False\<rparr>)
         else
           let readings = calibrationReadings mpu;
               proposedOffsetX = proposedOffset compX readings;
               proposedOffsetY = proposedOffset compY readings;
               proposedOffsetZ = proposedOffset compZ readings;
               maxOffsetXY = 0.5;
               minZOffset = 0.8; maxZOffset = 1.5;
               minZValue = 0.8; maxZValue = 1.5;
               rawZMean = proposedOffset compZ readings
           in if \<bar>proposedOffsetX\<bar> > maxOffsetXY \<or> \<bar>proposedOffsetY\<bar> > maxOffsetXY
              then (False, s\<lparr>calibrationValid := False\<rparr>)
              else if \<bar>proposedOffsetZ\<bar> < minZOffset \<or> \<bar>proposedOffsetZ\<bar> > maxZOffset
              then (False, s\<lparr>calibrationValid := False\<rparr>)
              else if rawZMean < minZValue \<or> rawZMean > maxZValue
              then (False, s\<lparr>calibrationValid := False\<rparr>)
              else
                let s1 = s\<lparr>offsetX := proposedOffsetX, offsetY := proposedOffsetY,
                           offsetZ := proposedOffsetZ\<rparr>;
                    s2 = s1\<lparr>lastCalibrationOffsets := [offsetX s1, offsetY s1, offsetZ s1],
                            lastCalibrationTime := now\<rparr>;
                    s3 = s2\<lparr>calibrated := True, calibrationValid := True\<rparr>;
                    testSumMagnitude =
                      sum_list (map (\<lambda>i. testMagnitude s3 (mpu (250 + i))) [0 ..< 10]);
                    avgTestMagnitude = testSumMagnitude / 10
                in (True, s3\<lparr>baselineLTA := avgTestMagnitude\<rparr>))"

subsection \<open>Event records and their consumers\<close>

text \<open>\<open>SeismicEventData\<close> (data_logger.h). Fields whose names the detector state or the
  sensor sample already use carry the prefix \<open>ev_\<close>.\<close>

record SeismicEventData =
  ev_timestamp :: ulong
  datetimeISO :: string
  ntpValidated :: bool
  bootTimeMs :: ulong
  eventType :: string
  intensityLevel :: int
  richterRange :: string
  confidence :: real
  pgaG :: real
  richterMagnitude :: real
  localMagnitude :: real
  durationMs :: ulong
  peakFrequencyHz :: real
  energyJoules :: real
  maxAccelX :: real
  maxAccelY :: real
  maxAccelZ :: real
  vectorMagnitude :: real
  ev_calibrationValid :: bool
  calibrationAgeHours :: real
  detectionMethod :: string
  triggerRatio :: real
  staWindowSamples :: int
  ltaWindowSamples :: int
  ev_backgroundNoise :: real
  source :: string
  processingVersion :: string
  sampleRateHz :: int
  filterApplied :: string
  dataQuality :: string

text \<open>\<open>EventPacket\<close> (dual_core_manager.h).\<close>

record EventPacket =
  pkt_eventType :: string
  pkt_magnitude :: real
  pkt_level :: int
  pkt_timestamp :: ulong

text \<open>What leaves the detector: a line appended to a file under \<open>/seismic\<close>, a record
  published on the broker, a packet put on the event queue.\<close>

datatype action =
    Persist SeismicEventData
  | Publish SeismicEventData
  | Forward EventPacket

text \<open>The surroundings of one call: the time manager, the values that the calls of
  \<open>millis()\<close> and of \<open>timeClient.getEpochTime()\<close> return at each place, the sensor
  registers, and the condition of the logger, the broker and the event queue.\<close>

record env =
  tm :: time_manager
  ntpEpoch :: ulong
  ntpEpochForward :: ulong
  formattedDateTime :: string
  t_adaptive :: ulong
  t_trigger :: ulong
  t_end :: ulong
  t_valid :: ulong
  t_create :: ulong
  t_forward :: ulong
  t_drift :: ulong
  t_driftSet :: ulong
  rawMotion :: raw_motion
  loggerPresent :: bool
  loggerInitialized :: bool
  fileOpens :: bool
  mqttConnected :: bool
  coreManagerPresent :: bool
  eventQueuePresent :: bool
  eventQueueRoom :: bool

text \<open>\<open>DataLogger::logSeismicEvent\<close>.\<close>

definition logSeismicEvent :: "env \<Rightarrow> SeismicEventData \<Rightarrow> bool \<times> action list" where
  "logSeismicEvent e eventData =
     (if \<not> loggerInitialized e then (False, [])
      else if \<not> ntpValidated eventData then (False, [])
      else if \<not> fileOpens e then (False, [])
      else (True, Persist eventData # (if mqttConnected e then [Publish eventData] else [])))"

text \<open>\<open>DualCoreManager::sendEvent\<close>: \<open>xQueueSend\<close> with a timeout of 0 fails on a full queue.\<close>

definition sendEvent :: "env \<Rightarrow> EventPacket \<Rightarrow> bool \<times> action list" where
  "sendEvent e event =
     (if \<not> eventQueuePresent e then (False, [])
      else if eventQueueRoom e then (True, [Forward event]) else (False, []))"

subsection \<open>Event life cycle\<close>

definition startEvent :: "ulong \<Rightarrow> real \<Rightarrow> seismograph \<Rightarrow> seismograph" where
  "startEvent now m s =
     s\<lparr>eventActive := True, eventStartTime := now, eventMaxMagnitude := m,
       eventSumMagnitude := m, eventSampleCount := 1\<rparr>"

definition createSeismicEvent ::
    "env \<Rightarrow> real \<Rightarrow> ulong \<Rightarrow> string \<Rightarrow> seismograph \<Rightarrow> seismograph \<times> action list" where
  "createSeismicEvent e m duration src s =
     (if \<not> isTimeValid (t_create e) (tm e) then (s, [])
      else
        let richter = calculateRichterMagnitude m;
            (lastReading, s1) = readSensor (t_create e) (rawMotion e) s;
            eventData = \<lparr>
              ev_timestamp = getEpochTime (ntpEpoch e) (t_create e) (tm e),
              datetimeISO = formattedDateTime e,
              ntpValidated = True,
              bootTimeMs = t_create e,
              eventType = getEventTypeFromRichter richter,
              intensityLevel = getIntensityLevelFromRichter richter,
              richterRange = getRichterRangeFromType (getEventTypeFromRichter richter),
              confidence = 0.95,
              pgaG = m,
              richterMagnitude = richter,
              localMagnitude = calculateLocalMagnitude m,
              durationMs = duration,
              peakFrequencyHz = calculatePeakFrequency m,
              energyJoules = calculateEnergyJoules richter,
              maxAccelX = \<bar>accelX lastReading\<bar>,
              maxAccelY = \<bar>accelY lastReading\<bar>,
              maxAccelZ = \<bar>accelZ lastReading\<bar>,
              vectorMagnitude = m,
              ev_calibrationValid = calibrationValid s1,
              calibrationAgeHours = getCalibrationAgeHours (t_create e) s1,
              detectionMethod = ''STA_LTA'',
              triggerRatio =
                (if staFull s1 \<and> ltaFull s1
                 then (let sta = staSum s1 / real STA_WINDOW; lta = ltaSum s1 / real LTA_WINDOW
                       in if lta > 0 then sta / lta else 0)
                 else 0),
              staWindowSamples = int STA_WINDOW,
              ltaWindowSamples = int LTA_WINDOW,
              ev_backgroundNoise = backgroundNoise s1,
              source = src,
              processingVersion = ''v1.0'',
              sampleRateHz = 100,
              filterApplied = ''bandpass_1-30hz'',
              dataQuality = (if calibrationValid s1 then ''excellent'' else ''good'') \<rparr>
        in if loggerPresent e then (s1, snd (logSeismicEvent e eventData)) else (s1, []))"

text \<open>\<open>endEvent\<close>. The description string that is only printed is left out.\<close>

definition endEvent :: "env \<Rightarrow> seismograph \<Rightarrow> seismograph \<times> action list" where
  "endEvent e s =
     (if \<not> eventActive s then (s, [])
      else
        let eventDuration = t_end e - eventStartTime s;
            level = classifyEvent (eventMaxMagnitude s);
            s1 = s\<lparr>eventsDetected := eventsDetected s + 1\<rparr>;
            s2 = s1\<lparr>eventActive := False\<rparr>;
            richter = calculateRichterMagnitude (eventMaxMagnitude s2);
            evType = getEventTypeFromRichter richter;
            ntpTimeValid = isTimeValid (t_valid e) (tm e)
        in if \<not> ntpTimeValid then (s2, [])
           else
             let (s3, out1) =
                   createSeismicEvent e (eventMaxMagnitude s2) eventDuration
                     ''seismograph_detection'' s2
             in if coreManagerPresent e
                then (let eventPacket = \<lparr>
                            pkt_eventType = evType,
                            pkt_magnitude = eventMaxMagnitude s3,
                            pkt_level = level,
                            pkt_timestamp =
                              getEpochTime (ntpEpochForward e) (t_forward e) (tm e) * 1000 \<rparr>
                      in (s3, out1 @ snd (sendEvent e eventPacket)))
                else (s3, out1))"

text \<open>\<open>processData\<close> in three blocks. After the spike filter has let the sample
  pass, \<open>admitSample\<close> stores it in the spike buffer and updates the adaptive
  thresholds and the STA/LTA state.\<close>

definition admitSample :: "env \<Rightarrow> SensorData \<Rightarrow> seismograph \<Rightarrow> seismograph" where
  "admitSample e d s =
     (let s1 = s\<lparr>lastMagnitudes := (lastMagnitudes s)[magnitudeIndex s := magnitude d]\<rparr>;
          s2 = s1\<lparr>magnitudeIndex := (magnitudeIndex s1 + 1) mod 5\<rparr>;
          s3 = (if magnitudeIndex s2 = 0 then s2\<lparr>magnitudeBufferFull := True\<rparr> else s2);
          s4 = updateAdaptiveThresholds (t_adaptive e) s3
      in updateSTALTA (magnitude d) s4)"

text \<open>The block that starts, continues or ends an event. The trigger condition holds
  when \<open>checkEventTrigger\<close> returns \<open>true\<close>. \<open>t_trigger e\<close> is the value of \<open>millis()\<close>
  in \<open>startEvent\<close> or in the test of the duration, whichever runs.\<close>

definition eventStep :: "env \<Rightarrow> SensorData \<Rightarrow> seismograph \<Rightarrow> seismograph \<times> action list" where
  "eventStep e d s =
     (let triggerCondition = (checkEventTrigger s = Some True)
      in if triggerCondition
         then (if \<not> eventActive s
               then (startEvent (t_trigger e) (magnitude d) s, [])
               else
                 (let s1 = (if magnitude d > eventMaxMagnitude s
                            then s\<lparr>eventMaxMagnitude := magnitude d\<rparr> else s)
                  in (s1\<lparr>eventSumMagnitude := eventSumMagnitude s1 + magnitude d,
                         eventSampleCount := eventSampleCount s1 + 1\<rparr>, [])))
         else if eventActive s
         then (let eventDuration = t_trigger e - eventStartTime s
               in if eventDuration \<ge> MIN_EVENT_DURATION then endEvent e s else (s, []))
         else (s, []))"

definition processData :: "env \<Rightarrow> SensorData \<Rightarrow> seismograph \<Rightarrow> seismograph \<times> action list" where
  "processData e d s =
     (if isSpikeFiltered (magnitude d) s
      then (s\<lparr>spikesFiltered := spikesFiltered s + 1\<rparr>, [])
      else
        let s5 = admitSample e d s;
            (s6, out) = eventStep e d s5
        in (checkCalibrationDrift (t_drift e) (t_driftSet e) s6, out))"

text \<open>One of the ten synthetic samples of \<open>simulateEvent\<close>.\<close>

definition simulatedSample :: "real \<Rightarrow> nat \<Rightarrow> seismograph \<Rightarrow> seismograph" where
  "simulatedSample realisticPGA i s =
     (let sampleMagnitude = realisticPGA * (0.8 + real i * 0.02);
          s1 = (if sampleMagnitude > eventMaxMagnitude s
                then s\<lparr>eventMaxMagnitude := sampleMagnitude\<rparr> else s)
      in s1\<lparr>eventSumMagnitude := eventSumMagnitude s1 + sampleMagnitude,
            eventSampleCount := eventSampleCount s1 + 1\<rparr>)"

text \<open>\<open>simulateEvent\<close>. \<open>t_trigger e\<close> is the value of \<open>millis()\<close> in \<open>startEvent\<close>. The call
  \<open>delay(simulatedDuration / 10)\<close> lets that many milliseconds pass; \<open>lag\<close> is the time
  that passes in addition until \<open>endEvent\<close> reads \<open>millis()\<close>. The other fields of \<open>e\<close>
  serve \<open>endEvent\<close>, and \<open>e2\<close> serves the final call of \<open>processData\<close>. The result is
  \<open>None\<close> when the conversion in \<open>calculateEventDuration\<close> is undefined.\<close>

definition simulateEvent ::
    "env \<Rightarrow> ulong \<Rightarrow> env \<Rightarrow> real \<Rightarrow> seismograph \<Rightarrow> (seismograph \<times> action list) option" where
  "simulateEvent e lag e2 richter s =
     (let realisticPGA = calculatePGAFromRichter richter;
          simulatedData = \<lparr> accelX = realisticPGA * 0.6, accelY = realisticPGA * 0.3,
                            accelZ = realisticPGA * 0.1, magnitude = realisticPGA,
                            timestamp = t_trigger e2 \<rparr>
      in if \<not> eventActive s
         then
           (let s1 = startEvent (t_trigger e) realisticPGA s
            in case calculateEventDuration richter of
                 None \<Rightarrow> None
               | Some simulatedDuration \<Rightarrow>
                   (let s2 = fold (simulatedSample realisticPGA) [0 ..< 10] s1;
                        afterDelay = t_trigger e + simulatedDuration div 10 + lag;
                        (s3, out1) = endEvent (e\<lparr>t_end := afterDelay\<rparr>) s2;
                        (s4, out2) = processData e2 simulatedData s3
                    in Some (s4, out1 @ out2)))
         else Some (processData e2 simulatedData s))"


subsection \<open>Invariants and sample inputs\<close>

text \<open>The window sums agree with the ring buffers, which have their capacity, and the
  write positions are inside them.\<close>

definition sums_ok :: "seismograph \<Rightarrow> bool" where
  "sums_ok s =
     (staSum s = sum_list (staBuffer s) \<and> ltaSum s = sum_list (ltaBuffer s)
      \<and> length (staBuffer s) = STA_WINDOW \<and> length (ltaBuffer s) = LTA_WINDOW
      \<and> staIndex s < STA_WINDOW \<and> ltaIndex s < LTA_WINDOW)"



text \<open>The records that a list of actions appends to the files under \<open>/seismic\<close>.\<close>

fun persisted :: "action list \<Rightarrow> SeismicEventData list" where
  "persisted [] = []"
| "persisted (Persist r # acts) = r # persisted acts"
| "persisted (Publish r # acts) = persisted acts"
| "persisted (Forward p # acts) = persisted acts"

text \<open>The actions of a run of \<open>simulateEvent\<close>; none when the run is undefined.\<close>

definition outputsOf :: "(seismograph \<times> action list) option \<Rightarrow> action list" where
  "outputsOf res = (case res of None \<Rightarrow> [] | Some p \<Rightarrow> snd p)"

text \<open>Time managers whose \<open>begin\<close> ran at boot and reached the first server: one whose
  server reported 2010-01-01T00:00:00Z, one whose server reported 2026-01-01T00:00:00Z,
  and one that never synchronized.\<close>

definition tm_2010 :: time_manager where
  "tm_2010 = snd (tm_begin True (True, False, False) 1262304000 0 TimeManager)"

definition tm_synced :: time_manager where
  "tm_synced = snd (tm_begin True (True, False, False) 1767225600 0 TimeManager)"

definition tm_unsynced :: time_manager where
  "tm_unsynced = snd (tm_begin True (False, False, False) 0 0 TimeManager)"

text \<open>The detector after \<open>begin\<close> found the sensor; no sample has been processed yet.\<close>

definition readyDetector :: seismograph where
  "readyDetector = Seismograph \<lparr> initialized := True \<rparr>"


text \<open>A detector whose windows are full: the long window holds 0.001 g throughout, the
  short window 0.004 g.\<close>

definition shakingDetector :: seismograph where
  "shakingDetector = Seismograph
     \<lparr> staBuffer := replicate STA_WINDOW 0.004, ltaBuffer := replicate LTA_WINDOW 0.001,
       staSum := 0.1, ltaSum := 2.5, staFull := True, ltaFull := True \<rparr>"

text \<open>A detector whose windows are full of samples of \<open>2 ^ -20\<close> g and of zeros: the
  last 25 samples are nine of the former and sixteen zeros, the last 2500 samples hold
  360 of the former. The ratio of the two averages is 2.5.\<close>

definition boundaryDetector :: seismograph where
  "boundaryDetector = Seismograph
     \<lparr> staBuffer := replicate 9 (1 / 2 ^ 20) @ replicate 16 0,
       ltaBuffer := replicate 351 (1 / 2 ^ 20) @ replicate 2124 0
                    @ replicate 9 (1 / 2 ^ 20) @ replicate 16 0,
       staSum := 9 / 2 ^ 20, ltaSum := 360 / 2 ^ 20, staFull := True, ltaFull := True \<rparr>"

text \<open>A detector in the middle of an event that started at 1000 ms.\<close>

definition activeDetector :: seismograph where
  "activeDetector = Seismograph
     \<lparr> initialized := True, eventActive := True, eventStartTime := 1000,
       eventMaxMagnitude := 0.03, eventSumMagnitude := 0.3, eventSampleCount := 10 \<rparr>"

text \<open>A detector whose windows are full of samples of 0.0005 g.\<close>

definition lowNoiseDetector :: seismograph where
  "lowNoiseDetector = Seismograph
     \<lparr> staBuffer := replicate STA_WINDOW 0.0005, ltaBuffer := replicate LTA_WINDOW 0.0005,
       staSum := 0.0125, ltaSum := 1.25, staFull := True, ltaFull := True \<rparr>"

text \<open>A sensor at rest that lies level (1 g on the Z axis), one that lies on its side
  (1 g on the Y axis), and the detector after a calibration with the level sensor.\<close>

definition levelSensor :: "nat \<Rightarrow> raw_motion" where
  "levelSensor k = (0, 0, 16384)"

definition tiltedSensor :: "nat \<Rightarrow> raw_motion" where
  "tiltedSensor k = (0, 16384, 0)"

definition calibratedDetector :: seismograph where
  "calibratedDetector = snd (calibrate levelSensor 1000 Seismograph)"

text \<open>Surroundings in which logger, broker and queue all work; every clock reading is
  given by the arguments.\<close>

definition env_at :: "time_manager \<Rightarrow> ulong \<Rightarrow> ulong \<Rightarrow> env" where
  "env_at t now epoch = \<lparr>
     tm = t, ntpEpoch = epoch, ntpEpochForward = epoch,
     formattedDateTime = ''2026-01-01 00:00:00'',
     t_adaptive = now, t_trigger = now, t_end = now, t_valid = now, t_create = now,
     t_forward = now, t_drift = now, t_driftSet = now,
     rawMotion = (0, 0, 0),
     loggerPresent = True, loggerInitialized = True, fileOpens = True,
     mqttConnected = True, coreManagerPresent = True,
     eventQueuePresent = True, eventQueueRoom = True \<rparr>"

text \<open>Surroundings of a call of \<open>processData\<close> at 1200 ms in which \<open>endEvent\<close> reads
  the clock one millisecond later.\<close>

definition detectorEnv :: env where
  "detectorEnv = (env_at tm_synced 1200 1767225601) \<lparr> t_end := 1201 \<rparr>"

definition sample_of :: "real \<Rightarrow> ulong \<Rightarrow> SensorData" where
  "sample_of m now = \<lparr> accelX = m, accelY = 0, accelZ = 0, magnitude = m, timestamp = now \<rparr>"

section \<open>Properties\<close>

subsection \<open>Wall-clock trust\<close>

text \<open>
  C2, as the specification states it: \<open>isTimeValid\<close> holds exactly when a synchronization
  succeeded within twice the sync interval and the epoch time exceeds 1577836800
  (2020-01-01T00:00:00Z). This fails: a time manager that synchronized one second ago
  with a server whose clock stands in 2010 is valid, although its epoch time is below
  the bound.
\<close>

theorem isTimeValid_ignores_epoch:
  "\<not> (isTimeValid 1000 tm_2010 \<longleftrightarrow>
        (tm_initialized tm_2010 \<and> unat (1000 - lastSync tm_2010) < 2 * 3600000
         \<and> 1577836800 < getEpochTime 1262304001 1000 tm_2010))"
  by (simp add: isTimeValid_def getEpochTime_def tm_2010_def tm_begin_def syncWithNTP_def
      TimeManager_def config_defs)

text \<open>
  C2, amended: \<open>isTimeValid\<close> holds exactly when the time manager is initialized (its
  \<open>begin\<close> synchronized) and less than 7200000 ms, twice \<open>NTP_SYNC_INTERVAL\<close>, have passed
  on the 32-bit millisecond clock since the last successful synchronization. The epoch
  time is not looked at.
\<close>

theorem isTimeValid_iff:
  "isTimeValid now t = (tm_initialized t \<and> unat (now - lastSync t) < 2 * 3600000)"
  by (simp add: isTimeValid_def config_defs word_less_nat_alt)

subsection \<open>Windowed sums\<close>

lemma sum_list_update_real:
  "i < length xs \<Longrightarrow> sum_list (xs[i := v]) = sum_list xs - xs ! i + (v::real)"
  by (induction xs arbitrary: i) (auto split: nat.splits)

lemma sums_ok_Seismograph: "sums_ok Seismograph"
  by (simp add: sums_ok_def Seismograph_def config_defs sum_list_replicate)

lemma sums_ok_samples: "sums_ok shakingDetector" "sums_ok lowNoiseDetector"
  by (simp_all add: sums_ok_def shakingDetector_def lowNoiseDetector_def Seismograph_def
      config_defs sum_list_replicate)

lemma sums_ok_updateSTA: "sums_ok s \<Longrightarrow> sums_ok (updateSTA m s)"
  by (simp add: sums_ok_def updateSTA_def Let_def sum_list_update_real config_defs)

lemma sums_ok_updateLTA: "sums_ok s \<Longrightarrow> sums_ok (updateLTA m s)"
  by (simp add: sums_ok_def updateLTA_def Let_def sum_list_update_real config_defs)

lemma sums_ok_updateSTALTA: "sums_ok s \<Longrightarrow> sums_ok (updateSTALTA m s)"
  by (simp add: updateSTALTA_def sums_ok_updateSTA sums_ok_updateLTA)

lemma sums_ok_feedSTALTA: "sums_ok s \<Longrightarrow> sums_ok (feedSTALTA ms s)"
  unfolding feedSTALTA_def
  by (induction ms arbitrary: s) (simp_all add: sums_ok_updateSTALTA)

text \<open>
  C3: after any sequence of admitted magnitudes fed to \<open>updateSTALTA\<close> from the state that
  the constructor sets up, \<open>staSum\<close> is the sum of the 25 entries of \<open>staBuffer\<close> and
  \<open>ltaSum\<close> is the sum of the 2500 entries of \<open>ltaBuffer\<close>. Every prefix of a sequence is
  a sequence, so this holds after every call.
\<close>

theorem windowed_sum_fidelity:
  "staSum (feedSTALTA ms Seismograph) = sum_list (staBuffer (feedSTALTA ms Seismograph))
   \<and> ltaSum (feedSTALTA ms Seismograph) = sum_list (ltaBuffer (feedSTALTA ms Seismograph))
   \<and> length (staBuffer (feedSTALTA ms Seismograph)) = STA_WINDOW
   \<and> length (ltaBuffer (feedSTALTA ms Seismograph)) = LTA_WINDOW"
  using sums_ok_feedSTALTA [OF sums_ok_Seismograph, of ms] by (simp add: sums_ok_def)

subsection \<open>Trigger\<close>

lemma pow2_powr: "pow2 e = 2 powr real_of_int e"
proof (cases "0 \<le> e")
  case True
  then have "real_of_int e = real (nat e)" by simp
  then have "(2::real) powr real_of_int e = 2 ^ nat e"
    by (simp only: powr_realpow [of 2 "nat e", OF zero_less_numeral])
  then show ?thesis using True by (simp add: pow2_def)
next
  case False
  then have "real_of_int e = - real (nat (- e))" by simp
  then have "(2::real) powr real_of_int e = 1 / 2 ^ nat (- e)"
    by (simp only: powr_minus powr_realpow [of 2 "nat (- e)", OF zero_less_numeral]
        inverse_eq_divide)
  then show ?thesis using False by (simp add: pow2_def)
qed

lemma pow2_less_iff: "pow2 a < pow2 b \<longleftrightarrow> a < b"
  by (simp add: pow2_powr)

lemma exponentFrom_eq:
  assumes "- 126 \<le> e" "e \<le> int n - 126" "pow2 e \<le> a" "a < pow2 (e + 1)"
  shows "exponentFrom n a = e"
  using assms
proof (induction n)
  case 0
  then show ?case by simp
next
  case (Suc n)
  show ?case
  proof (cases "pow2 (int (Suc n) - 126) \<le> a")
    case True
    then have "pow2 (int (Suc n) - 126) < pow2 (e + 1)" using Suc.prems(4) by simp
    then have "int (Suc n) - 126 < e + 1" by (simp only: pow2_less_iff)
    then have "e = int (Suc n) - 126" using Suc.prems(2) by simp
    then show ?thesis using True by simp
  next
    case False
    then have "e \<noteq> int (Suc n) - 126" using Suc.prems(3) by auto
    then have "e \<le> int n - 126" using Suc.prems(2) by simp
    then have "exponentFrom n a = e" using Suc.IH Suc.prems by simp
    then show ?thesis using False by simp
  qed
qed

text \<open>The value of \<open>fl32\<close> at a number of the normal range whose exponent is \<open>e\<close>.\<close>

lemma fl32_normal:
  assumes "- 126 \<le> e" "e \<le> 127" "pow2 e \<le> \<bar>x\<bar>" "\<bar>x\<bar> < pow2 (e + 1)"
  shows "fl32 x = of_int (roundHalfEven (x / pow2 (e - 23))) * pow2 (e - 23)"
proof -
  have "exponentFrom 253 \<bar>x\<bar> = e"
    using assms by (intro exponentFrom_eq) simp_all
  then show ?thesis by (simp add: fl32_def Let_def)
qed

lemma fl32_zero: "fl32 0 = 0"
  by (simp add: fl32_def roundHalfEven_def Let_def)

text \<open>With both windows full, \<open>checkEventTrigger\<close> compares the rounded quotients.\<close>

lemma checkEventTrigger_full:
  "staFull s \<Longrightarrow> ltaFull s \<Longrightarrow>
   checkEventTrigger s =
     Some (fl32 (ltaSum s / real LTA_WINDOW) \<noteq> 0
           \<and> fl32 (fl32 (staSum s / real STA_WINDOW) / fl32 (ltaSum s / real LTA_WINDOW))
               > STA_LTA_RATIO)"
  by (simp add: checkEventTrigger_def fdiv_def config_defs)

lemma sums_ok_boundaryDetector: "sums_ok boundaryDetector"
  by (simp add: sums_ok_def boundaryDetector_def Seismograph_def config_defs sum_list_replicate)

lemma boundary_quotients:
  "fl32 (staSum boundaryDetector / real STA_WINDOW) = 12079596 / 2 ^ 45"
  "fl32 (ltaSum boundaryDetector / real LTA_WINDOW) = 9663676 / 2 ^ 46"
  "fl32 ((12079596 / 2 ^ 45) / (9663676 / 2 ^ 46)) = 10485761 / 2 ^ 22"
proof -
  show "fl32 (staSum boundaryDetector / real STA_WINDOW) = 12079596 / 2 ^ 45"
    unfolding boundaryDetector_def Seismograph_def config_defs
    by (subst fl32_normal [of "- 22"]) (simp_all add: pow2_def roundHalfEven_def Let_def)
  show "fl32 (ltaSum boundaryDetector / real LTA_WINDOW) = 9663676 / 2 ^ 46"
    unfolding boundaryDetector_def Seismograph_def config_defs
    by (subst fl32_normal [of "- 23"]) (simp_all add: pow2_def roundHalfEven_def Let_def)
  show "fl32 ((12079596 / 2 ^ 45) / (9663676 / 2 ^ 46)) = 10485761 / 2 ^ 22"
    by (subst fl32_normal [of 1]) (simp_all add: pow2_def roundHalfEven_def Let_def)
qed

lemma shaking_quotients:
  "fl32 (staSum shakingDetector / real STA_WINDOW) = 8589935 / 2 ^ 31"
  "fl32 (ltaSum shakingDetector / real LTA_WINDOW) = 8589935 / 2 ^ 33"
  "fl32 ((8589935 / 2 ^ 31) / (8589935 / 2 ^ 33)) = 4"
proof -
  show "fl32 (staSum shakingDetector / real STA_WINDOW) = 8589935 / 2 ^ 31"
    unfolding shakingDetector_def Seismograph_def config_defs
    by (subst fl32_normal [of "- 8"]) (simp_all add: pow2_def roundHalfEven_def Let_def)
  show "fl32 (ltaSum shakingDetector / real LTA_WINDOW) = 8589935 / 2 ^ 33"
    unfolding shakingDetector_def Seismograph_def config_defs
    by (subst fl32_normal [of "- 10"]) (simp_all add: pow2_def roundHalfEven_def Let_def)
  show "fl32 ((8589935 / 2 ^ 31) / (8589935 / 2 ^ 33)) = 4"
    by (subst fl32_normal [of 2]) (simp_all add: pow2_def roundHalfEven_def Let_def)
qed

text \<open>
  C5, as the specification states it: \<open>checkEventTrigger\<close> returns \<open>true\<close> exactly when
  both buffers have latched full and the ratio of the two averages strictly exceeds 2.5.
  This fails where rounding lifts a ratio of exactly 2.5 over the threshold. With
  \<open>staSum = 9 / 2 ^ 20\<close> and \<open>ltaSum = 360 / 2 ^ 20\<close> the ratio is 2.5; the two averages
  round to \<open>12079596 / 2 ^ 45\<close> and \<open>9663676 / 2 ^ 46\<close>, their quotient rounds to
  \<open>10485761 / 2 ^ 22\<close>, which is about 2.50000024, and the function returns \<open>true\<close>.
\<close>

theorem checkEventTrigger_rounds_over_threshold:
  "staFull boundaryDetector \<and> ltaFull boundaryDetector
   \<and> ltaSum boundaryDetector \<noteq> 0
   \<and> (staSum boundaryDetector / real STA_WINDOW) / (ltaSum boundaryDetector / real LTA_WINDOW)
       = STA_LTA_RATIO
   \<and> checkEventTrigger boundaryDetector = Some True"
proof -
  have f: "staFull boundaryDetector" "ltaFull boundaryDetector"
    by (simp_all add: boundaryDetector_def Seismograph_def)
  have r: "(staSum boundaryDetector / real STA_WINDOW) / (ltaSum boundaryDetector / real LTA_WINDOW)
       = STA_LTA_RATIO" "ltaSum boundaryDetector \<noteq> 0"
    by (simp_all add: boundaryDetector_def Seismograph_def config_defs)
  have "checkEventTrigger boundaryDetector =
      Some ((9663676 / 2 ^ 46 :: real) \<noteq> 0 \<and> (10485761 / 2 ^ 22 :: real) > STA_LTA_RATIO)"
    by (simp only: checkEventTrigger_full [OF f] boundary_quotients)
  then have "checkEventTrigger boundaryDetector = Some True"
    by (simp add: config_defs)
  then show ?thesis using f r by simp
qed

text \<open>
  C5, amended: \<open>checkEventTrigger\<close> returns \<open>true\<close> exactly when both buffers have latched
  full, the average \<open>ltaSum / LTA_WINDOW\<close> as a float is not zero, and the ratio
  \<open>(staSum / STA_WINDOW) / (ltaSum / LTA_WINDOW)\<close>, each of its three divisions rounded to
  the nearest float, strictly exceeds 2.5; with \<open>ltaSum = 0\<close> it returns \<open>false\<close>. It
  always returns a value, so no division by zero is evaluated.
\<close>

theorem checkEventTrigger_iff:
  "checkEventTrigger s =
     Some (staFull s \<and> ltaFull s \<and> fl32 (ltaSum s / real LTA_WINDOW) \<noteq> 0
           \<and> fl32 (fl32 (staSum s / real STA_WINDOW) / fl32 (ltaSum s / real LTA_WINDOW))
               > STA_LTA_RATIO)
   \<and> checkEventTrigger (s\<lparr>ltaSum := 0\<rparr>) = Some False"
  by (auto simp add: checkEventTrigger_def fdiv_def config_defs fl32_zero)

theorem checkEventTrigger_iff_witness:
  "checkEventTrigger shakingDetector = Some True
   \<and> checkEventTrigger (shakingDetector\<lparr>ltaSum := 0\<rparr>) = Some False
   \<and> checkEventTrigger Seismograph = Some False"
proof -
  have f: "staFull shakingDetector" "ltaFull shakingDetector" "\<not> staFull Seismograph"
    by (simp_all add: shakingDetector_def Seismograph_def)
  have "checkEventTrigger shakingDetector =
      Some (staFull shakingDetector \<and> ltaFull shakingDetector
            \<and> (8589935 / 2 ^ 33 :: real) \<noteq> 0 \<and> (4 :: real) > STA_LTA_RATIO)"
    using checkEventTrigger_iff [of shakingDetector] by (simp only: shaking_quotients)
  then have a: "checkEventTrigger shakingDetector = Some True"
    using f by (simp add: config_defs)
  have b: "checkEventTrigger (shakingDetector\<lparr>ltaSum := 0\<rparr>) = Some False"
    using checkEventTrigger_iff [of shakingDetector] by blast
  have c: "checkEventTrigger Seismograph = Some False"
    using checkEventTrigger_iff [of Seismograph] f(3) by simp
  show ?thesis using a b c by blast
qed

subsection \<open>Spike filter\<close>















subsection \<open>The end of an event\<close>

lemma readSensor_eventsDetected:
  "eventsDetected (snd (readSensor now r s)) = eventsDetected s"
  by (simp add: readSensor_def Let_def split: prod.splits)

lemma readSensor_eventActive:
  "eventActive (snd (readSensor now r s)) = eventActive s"
  by (simp add: readSensor_def Let_def split: prod.splits)

lemma createSeismicEvent_eventsDetected:
  "eventsDetected (fst (createSeismicEvent e m dur src s)) = eventsDetected s"
  using readSensor_eventsDetected [of "t_create e" "rawMotion e" s]
  by (simp add: createSeismicEvent_def Let_def case_prod_beta)

lemma createSeismicEvent_eventActive:
  "eventActive (fst (createSeismicEvent e m dur src s)) = eventActive s"
  using readSensor_eventActive [of "t_create e" "rawMotion e" s]
  by (simp add: createSeismicEvent_def Let_def case_prod_beta)

lemma tm_unsynced_invalid: "\<not> isTimeValid now tm_unsynced"
  by (simp add: isTimeValid_def tm_unsynced_def tm_begin_def syncWithNTP_def TimeManager_def)

lemma tm_synced_valid: "now < 7200000 \<Longrightarrow> isTimeValid now tm_synced"
  by (simp add: isTimeValid_def tm_synced_def tm_begin_def syncWithNTP_def TimeManager_def
      config_defs)

text \<open>
  C1, as the specification states it: an event that ends while the wall clock is not
  trusted is dropped and a rejection counter is incremented. The state of the detector
  has three counters, \<open>totalSamples\<close>, \<open>eventsDetected\<close> and \<open>spikesFiltered\<close>, and none
  for rejections. For the event below, which ends on a clock that never synchronized,
  nothing is emitted, and putting \<open>eventsDetected\<close> and \<open>eventActive\<close> back to their old
  values gives the old state back: no other field has changed, so nothing has counted
  the rejection.
\<close>

theorem rejection_not_counted:
  "eventActive activeDetector
   \<and> \<not> isTimeValid (t_valid (env_at tm_unsynced 2000 2)) (tm (env_at tm_unsynced 2000 2))
   \<and> snd (endEvent (env_at tm_unsynced 2000 2) activeDetector) = []
   \<and> (fst (endEvent (env_at tm_unsynced 2000 2) activeDetector))
        \<lparr>eventsDetected := eventsDetected activeDetector, eventActive := True\<rparr> = activeDetector"
  using tm_unsynced_invalid
  by (simp add: endEvent_def Let_def env_at_def activeDetector_def Seismograph_def)

text \<open>
  C1, amended: when an active event ends while \<open>isTimeValid\<close> is false, \<open>endEvent\<close> emits
  nothing (no record is persisted or published, no packet is put on the event queue);
  it counts the event in \<open>eventsDetected\<close>, clears \<open>eventActive\<close> and leaves every other
  field of the detector as it was. No counter of rejections exists.
\<close>

theorem endEvent_untrusted_clock:
  "eventActive s \<Longrightarrow> \<not> isTimeValid (t_valid e) (tm e) \<Longrightarrow>
   endEvent e s = (s\<lparr>eventsDetected := eventsDetected s + 1, eventActive := False\<rparr>, [])"
  by (simp add: endEvent_def Let_def)

theorem endEvent_untrusted_clock_witness:
  "eventActive activeDetector
   \<and> \<not> isTimeValid (t_valid (env_at tm_unsynced 2000 2)) (tm (env_at tm_unsynced 2000 2))
   \<and> endEvent (env_at tm_unsynced 2000 2) activeDetector
        = (activeDetector\<lparr>eventsDetected := 1, eventActive := False\<rparr>, [])"
  using endEvent_untrusted_clock [of activeDetector "env_at tm_unsynced 2000 2"]
    tm_unsynced_invalid
  by (simp add: env_at_def activeDetector_def Seismograph_def)

text \<open>
  C10: every call of \<open>endEvent\<close> with an active event increments \<open>eventsDetected\<close> by
  one, whether the wall clock is trusted or not; when it is not, no record is
  persisted, so \<open>eventsDetected\<close> can exceed the number of persisted records.
\<close>

theorem endEvent_counts_once:
  "eventActive s \<Longrightarrow>
   eventsDetected (fst (endEvent e s)) = eventsDetected s + 1
   \<and> \<not> eventActive (fst (endEvent e s))
   \<and> (\<not> isTimeValid (t_valid e) (tm e) \<longrightarrow> persisted (snd (endEvent e s)) = [])"
  using createSeismicEvent_eventsDetected [of e "eventMaxMagnitude s"
      "t_end e - eventStartTime s" "''seismograph_detection''"
      "s\<lparr>eventsDetected := eventsDetected s + 1, eventActive := False\<rparr>"]
    createSeismicEvent_eventActive [of e "eventMaxMagnitude s"
      "t_end e - eventStartTime s" "''seismograph_detection''"
      "s\<lparr>eventsDetected := eventsDetected s + 1, eventActive := False\<rparr>"]
  by (simp add: endEvent_def Let_def case_prod_beta)

theorem endEvent_counts_once_witness:
  "eventActive activeDetector
   \<and> \<not> isTimeValid (t_valid (env_at tm_unsynced 2000 2)) (tm (env_at tm_unsynced 2000 2))
   \<and> eventsDetected (fst (endEvent (env_at tm_unsynced 2000 2) activeDetector)) = 1
   \<and> persisted (snd (endEvent (env_at tm_unsynced 2000 2) activeDetector)) = []
   \<and> isTimeValid (t_valid (env_at tm_synced 2000 1767225602))
        (tm (env_at tm_synced 2000 1767225602))
   \<and> eventsDetected (fst (endEvent (env_at tm_synced 2000 1767225602) activeDetector)) = 1
   \<and> length (persisted (snd (endEvent (env_at tm_synced 2000 1767225602) activeDetector))) = 1"
proof -
  have a: "eventActive activeDetector" "eventsDetected activeDetector = 0"
    by (simp_all add: activeDetector_def Seismograph_def)
  have v: "isTimeValid (t_valid (env_at tm_synced 2000 1767225602))
             (tm (env_at tm_synced 2000 1767225602))"
    "isTimeValid (t_create (env_at tm_synced 2000 1767225602))
       (tm (env_at tm_synced 2000 1767225602))"
    "\<not> isTimeValid (t_valid (env_at tm_unsynced 2000 2)) (tm (env_at tm_unsynced 2000 2))"
    using tm_synced_valid [of 2000] tm_unsynced_invalid by (simp_all add: env_at_def)
  have p: "length (persisted (snd (endEvent (env_at tm_synced 2000 1767225602) activeDetector))) = 1"
    using a(1) v(1) v(2)
    by (simp add: endEvent_def createSeismicEvent_def logSeismicEvent_def sendEvent_def Let_def
        case_prod_beta) (simp add: env_at_def)
  show ?thesis
    using endEvent_counts_once [OF a(1), of "env_at tm_unsynced 2000 2"]
      endEvent_counts_once [OF a(1), of "env_at tm_synced 2000 1767225602"] a v p
    by simp
qed


subsection \<open>Duration of emitted events\<close>


lemma persisted_append: "persisted (xs @ ys) = persisted xs @ persisted ys"
  by (induction xs rule: persisted.induct) simp_all

lemma sendEvent_persisted: "persisted (snd (sendEvent e p)) = []"
  by (simp add: sendEvent_def)

lemma createSeismicEvent_duration:
  "r \<in> set (persisted (snd (createSeismicEvent e m dur src s))) \<Longrightarrow> durationMs r = dur"
  by (auto simp add: createSeismicEvent_def logSeismicEvent_def Let_def case_prod_beta split: if_splits)

lemma createSeismicEvent_persists:
  "isTimeValid (t_create e) (tm e) \<Longrightarrow> loggerPresent e \<Longrightarrow> loggerInitialized e \<Longrightarrow> fileOpens e \<Longrightarrow>
   map durationMs (persisted (snd (createSeismicEvent e m dur src s))) = [dur]"
  by (simp add: createSeismicEvent_def logSeismicEvent_def Let_def case_prod_beta)

lemma endEvent_persisted:
  "persisted (snd (endEvent e s)) =
     (if eventActive s \<and> isTimeValid (t_valid e) (tm e)
      then persisted (snd (createSeismicEvent e (eventMaxMagnitude s) (t_end e - eventStartTime s)
              ''seismograph_detection'' (s\<lparr>eventsDetected := eventsDetected s + 1, eventActive := False\<rparr>)))
      else [])"
  by (simp add: endEvent_def Let_def case_prod_beta persisted_append sendEvent_persisted)

lemma endEvent_duration:
  "r \<in> set (persisted (snd (endEvent e s))) \<Longrightarrow> durationMs r = t_end e - eventStartTime s"
  by (auto simp add: endEvent_persisted split: if_splits dest: createSeismicEvent_duration)

lemma endEvent_inactive: "\<not> eventActive (fst (endEvent e s))"
  using createSeismicEvent_eventActive [of e "eventMaxMagnitude s"
      "t_end e - eventStartTime s" "''seismograph_detection''"
      "s\<lparr>eventsDetected := eventsDetected s + 1, eventActive := False\<rparr>"]
  by (simp add: endEvent_def Let_def case_prod_beta)

lemma updateAdaptiveThresholds_event:
  "eventActive (updateAdaptiveThresholds t s) = eventActive s"
  "eventStartTime (updateAdaptiveThresholds t s) = eventStartTime s"
  by (simp_all add: updateAdaptiveThresholds_def Let_def)

lemma updateSTALTA_event:
  "eventActive (updateSTALTA m s) = eventActive s"
  "eventStartTime (updateSTALTA m s) = eventStartTime s"
  by (simp_all add: updateSTALTA_def updateSTA_def updateLTA_def Let_def)

lemma admitSample_event:
  "eventActive (admitSample e d s) = eventActive s"
  "eventStartTime (admitSample e d s) = eventStartTime s"
  by (simp_all add: admitSample_def Let_def updateSTALTA_event updateAdaptiveThresholds_event)

lemma eventStep_persisted:
  "persisted (snd (eventStep e d s)) =
     (if checkEventTrigger s \<noteq> Some True \<and> eventActive s \<and> MIN_EVENT_DURATION \<le> t_trigger e - eventStartTime s
      then persisted (snd (endEvent e s)) else [])"
  by (simp add: eventStep_def Let_def)

lemma processData_persisted:
  "persisted (snd (processData e d s)) =
     (if isSpikeFiltered (magnitude d) s then []
      else persisted (snd (eventStep e d (admitSample e d s))))"
  by (simp add: processData_def Let_def case_prod_beta)

lemma processData_duration:
  assumes "r \<in> set (persisted (snd (processData e d s)))"
  shows "durationMs r = t_end e - eventStartTime s \<and> MIN_EVENT_DURATION \<le> t_trigger e - eventStartTime s
     \<and> eventActive s"
  using assms endEvent_duration [of r e "admitSample e d s"]
  by (simp add: processData_persisted eventStep_persisted admitSample_event split: if_splits)

lemma processData_inactive:
  "\<not> eventActive s \<Longrightarrow> persisted (snd (processData e d s)) = []"
  by (simp add: processData_persisted eventStep_persisted admitSample_event)

lemma duration_no_wrap:
  fixes start t1 t2 :: ulong
  assumes "MIN_EVENT_DURATION \<le> t1 - start" "unat (t1 - start) + unat (t2 - t1) < 2 ^ 32"
  shows "100 \<le> unat (t2 - start)"
proof -
  have e: "t2 - start = (t1 - start) + (t2 - t1)" by simp
  have "unat ((t1 - start) + (t2 - t1)) = unat (t1 - start) + unat (t2 - t1)"
    using assms(2) by (intro unat_add_lem [THEN iffD1]) simp
  then have "unat (t2 - start) = unat (t1 - start) + unat (t2 - t1)"
    by (simp only: e)
  moreover have "100 \<le> unat (t1 - start)"
    using assms(1) by (simp add: word_le_nat_alt config_defs)
  ultimately show ?thesis by simp
qed


lemma simulatedSample_event:
  "eventActive (simulatedSample pga i s) = eventActive s"
  "eventStartTime (simulatedSample pga i s) = eventStartTime s"
  by (simp_all add: simulatedSample_def Let_def)

lemma fold_simulatedSample_event:
  "eventActive (fold (simulatedSample pga) is s) = eventActive s
   \<and> eventStartTime (fold (simulatedSample pga) is s) = eventStartTime s"
  by (induction "is" arbitrary: s) (simp_all add: simulatedSample_event)

lemma simulateEvent_idle:
  assumes "\<not> eventActive s"
  shows "persisted (outputsOf (simulateEvent e lag e2 R s)) =
     (case calculateEventDuration R of None \<Rightarrow> []
      | Some dur \<Rightarrow>
          persisted (snd (endEvent (e\<lparr>t_end := t_trigger e + dur div 10 + lag\<rparr>)
             (fold (simulatedSample (calculatePGAFromRichter R)) [0 ..< 10]
                (startEvent (t_trigger e) (calculatePGAFromRichter R) s)))))"
  using assms
  by (simp add: simulateEvent_def outputsOf_def Let_def case_prod_beta persisted_append
      processData_inactive endEvent_inactive split: option.splits)

lemma simulateEvent_active:
  assumes "eventActive s"
  shows "\<exists>d. persisted (outputsOf (simulateEvent e lag e2 R s)) = persisted (snd (processData e2 d s))"
  using assms
  by (auto simp add: simulateEvent_def outputsOf_def Let_def)

lemma simulateEvent_duration:
  assumes "\<not> eventActive s" "r \<in> set (persisted (outputsOf (simulateEvent e lag e2 R s)))"
  shows "\<exists>dur. calculateEventDuration R = Some dur \<and> durationMs r = dur div 10 + lag"
proof (cases "calculateEventDuration R")
  case None
  then show ?thesis using assms by (simp add: simulateEvent_idle)
next
  case (Some dur)
  then have "r \<in> set (persisted (snd (endEvent (e\<lparr>t_end := t_trigger e + dur div 10 + lag\<rparr>)
             (fold (simulatedSample (calculatePGAFromRichter R)) [0 ..< 10]
                (startEvent (t_trigger e) (calculatePGAFromRichter R) s)))))"
    using assms by (simp add: simulateEvent_idle)
  from endEvent_duration [OF this]
  have "durationMs r = dur div 10 + lag"
    by (simp add: fold_simulatedSample_event startEvent_def)
  then show ?thesis using Some by simp
qed

lemma simulateEvent_records:
  assumes "\<not> eventActive s" "calculateEventDuration R = Some dur"
    "isTimeValid (t_valid e) (tm e)" "isTimeValid (t_create e) (tm e)"
    "loggerPresent e" "loggerInitialized e" "fileOpens e"
  shows "map durationMs (persisted (outputsOf (simulateEvent e lag e2 R s))) = [dur div 10 + lag]"
  using assms
  by (simp add: simulateEvent_idle endEvent_persisted fold_simulatedSample_event startEvent_def
      createSeismicEvent_persists)

lemma calculateEventDuration_range:
  assumes "calculateEventDuration R = Some dur"
  shows "10 \<le> unat (dur div 10) \<and> unat (dur div 10) \<le> 30000"
proof -
  have "100 \<le> dur \<and> dur \<le> 300000"
    using assms by (auto simp: calculateEventDuration_def constrain_def split: if_splits)
  then have "100 \<le> unat dur \<and> unat dur \<le> 300000"
    by (simp add: word_le_nat_alt)
  then have "10 \<le> unat dur div 10 \<and> unat dur div 10 \<le> 30000"
    by arith
  then show ?thesis by (simp add: unat_div)
qed

lemma calculateEventDuration_1: "calculateEventDuration 1 = Some 300"
  by (simp add: calculateEventDuration_def float_to_ulong_def constrain_def)

lemma staFull_updateSTA:
  "staFull (updateSTA m s) = (staFull s \<or> (staIndex s + 1) mod STA_WINDOW = 0)"
  by (simp add: updateSTA_def Let_def)

lemma staFull_updateLTA: "staFull (updateLTA m s) = staFull s"
  by (simp add: updateLTA_def Let_def)

lemma updateAdaptiveThresholds_sta:
  "staFull (updateAdaptiveThresholds t s) = staFull s"
  "staIndex (updateAdaptiveThresholds t s) = staIndex s"
  by (simp_all add: updateAdaptiveThresholds_def Let_def)

lemma staFull_admitSample:
  "staFull (admitSample e d s) = (staFull s \<or> (staIndex s + 1) mod STA_WINDOW = 0)"
  by (simp add: admitSample_def updateSTALTA_def staFull_updateLTA staFull_updateSTA
      updateAdaptiveThresholds_sta Let_def)

lemma processData_records:
  assumes "\<not> isSpikeFiltered (magnitude d) s" "\<not> staFull (admitSample e d s)"
    "eventActive s" "MIN_EVENT_DURATION \<le> t_trigger e - eventStartTime s"
    "isTimeValid (t_valid e) (tm e)" "isTimeValid (t_create e) (tm e)"
    "loggerPresent e" "loggerInitialized e" "fileOpens e"
  shows "map durationMs (persisted (snd (processData e d s))) = [t_end e - eventStartTime s]"
proof -
  have "checkEventTrigger (admitSample e d s) = Some False"
    using assms(2) by (simp add: checkEventTrigger_def)
  then show ?thesis using assms
    by (simp add: processData_persisted eventStep_persisted admitSample_event endEvent_persisted
        createSeismicEvent_persists)
qed

text \<open>
  C4, as the specification states it: every emitted record has a duration of at least
  100 ms, also on the simulation path. This fails: \<open>simulateEvent\<close> waits a tenth of the
  synthetic duration between \<open>startEvent\<close> and \<open>endEvent\<close>, and \<open>endEvent\<close> does not
  test the duration. For Richter 1 the synthetic duration is 300 ms, the wait 30 ms, and
  with a trusted clock a record of 30 ms is persisted.
\<close>

theorem simulated_event_shorter_than_minimum:
  "map durationMs (persisted (outputsOf
      (simulateEvent (env_at tm_synced 5000 1767225605) 0 (env_at tm_synced 5031 1767225605) 1 readyDetector)))
     = [30]
   \<and> (30 :: ulong) < MIN_EVENT_DURATION"
proof -
  have "map durationMs (persisted (outputsOf
      (simulateEvent (env_at tm_synced 5000 1767225605) 0 (env_at tm_synced 5031 1767225605) 1 readyDetector)))
     = [300 div 10 + 0]"
    using tm_synced_valid [of 5000]
    by (intro simulateEvent_records calculateEventDuration_1) (simp_all add: env_at_def readyDetector_def Seismograph_def)
  then show ?thesis by (simp add: config_defs)
qed

text \<open>
  C4, amended: every record that the detector path of \<open>processData\<close> emits has a duration
  of at least 100 ms, provided the 32-bit millisecond clock has not wrapped around since
  the start of the event when \<open>endEvent\<close> reads it. A record that \<open>simulateEvent\<close>
  emits for an event of its own has the duration \<open>calculateEventDuration(R) / 10\<close> plus
  the lag of the wait, which is at least 10 ms.
\<close>

theorem event_duration_bounds:
  "(r \<in> set (persisted (snd (processData e d s)))
      \<and> unat (t_trigger e - eventStartTime s) + unat (t_end e - t_trigger e) < 2 ^ 32
    \<longrightarrow> 100 \<le> unat (durationMs r))
   \<and> (\<not> eventActive s \<and> r \<in> set (persisted (outputsOf (simulateEvent e lag e2 R s)))
        \<and> unat lag < 2 ^ 32 - 30000
    \<longrightarrow> (\<exists>dur. calculateEventDuration R = Some dur \<and> durationMs r = dur div 10 + lag)
        \<and> 10 \<le> unat (durationMs r))"
proof (intro conjI impI)
  assume a: "r \<in> set (persisted (snd (processData e d s)))
      \<and> unat (t_trigger e - eventStartTime s) + unat (t_end e - t_trigger e) < 2 ^ 32"
  then show "100 \<le> unat (durationMs r)"
    using processData_duration [of r e d s] duration_no_wrap [of "t_trigger e" "eventStartTime s" "t_end e"]
    by simp
next
  assume a: "\<not> eventActive s \<and> r \<in> set (persisted (outputsOf (simulateEvent e lag e2 R s)))
        \<and> unat lag < 2 ^ 32 - 30000"
  then show "\<exists>dur. calculateEventDuration R = Some dur \<and> durationMs r = dur div 10 + lag"
    using simulateEvent_duration [of s r e lag e2 R] by simp
next
  assume a: "\<not> eventActive s \<and> r \<in> set (persisted (outputsOf (simulateEvent e lag e2 R s)))
        \<and> unat lag < 2 ^ 32 - 30000"
  then obtain dur where d: "calculateEventDuration R = Some dur" "durationMs r = dur div 10 + lag"
    using simulateEvent_duration [of s r e lag e2 R] by auto
  have b: "10 \<le> unat (dur div 10)" "unat (dur div 10) \<le> 30000"
    using calculateEventDuration_range [OF d(1)] by simp_all
  have "unat (dur div 10 + lag) = unat (dur div 10) + unat lag"
    using a b by (intro unat_add_lem [THEN iffD1]) simp
  then show "10 \<le> unat (durationMs r)" using b d by simp
qed

theorem event_duration_bounds_witness:
  "map durationMs (persisted (snd (processData detectorEnv (sample_of 0.001 1200) activeDetector)))
     = [201]
   \<and> unat (t_trigger detectorEnv - eventStartTime activeDetector)
       + unat (t_end detectorEnv - t_trigger detectorEnv) < 2 ^ 32
   \<and> 100 \<le> unat (durationMs (hd (persisted
         (snd (processData detectorEnv (sample_of 0.001 1200) activeDetector)))))
   \<and> \<not> eventActive readyDetector
   \<and> map durationMs (persisted (outputsOf
         (simulateEvent (env_at tm_synced 5000 1767225605) 0
            (env_at tm_synced 5031 1767225605) 1 readyDetector))) = [30]
   \<and> unat (0 :: ulong) < 2 ^ 32 - 30000
   \<and> 10 \<le> unat (durationMs (hd (persisted (outputsOf
         (simulateEvent (env_at tm_synced 5000 1767225605) 0
            (env_at tm_synced 5031 1767225605) 1 readyDetector)))))"
proof -
  let ?P = "persisted (snd (processData detectorEnv (sample_of 0.001 1200) activeDetector))"
  let ?S = "persisted (outputsOf (simulateEvent (env_at tm_synced 5000 1767225605) 0
            (env_at tm_synced 5031 1767225605) 1 readyDetector))"
  have v: "isTimeValid (t_valid detectorEnv) (tm detectorEnv)"
    "isTimeValid (t_create detectorEnv) (tm detectorEnv)"
    using tm_synced_valid [of 1200] by (simp_all add: detectorEnv_def env_at_def)
  have nf: "\<not> staFull (admitSample detectorEnv (sample_of 0.001 1200) activeDetector)"
    by (simp add: staFull_admitSample activeDetector_def Seismograph_def config_defs)
  have ns: "\<not> isSpikeFiltered (magnitude (sample_of 0.001 1200)) activeDetector"
    by (simp add: isSpikeFiltered_def activeDetector_def Seismograph_def)
  have "map durationMs ?P = [t_end detectorEnv - eventStartTime activeDetector]"
    using v nf ns
    by (intro processData_records)
      (simp_all add: detectorEnv_def env_at_def activeDetector_def Seismograph_def config_defs)
  then have p: "map durationMs ?P = [201]"
    by (simp add: detectorEnv_def env_at_def activeDetector_def Seismograph_def)
  then have p1: "hd ?P \<in> set ?P" by (cases ?P) simp_all
  have w: "unat (t_trigger detectorEnv - eventStartTime activeDetector)
       + unat (t_end detectorEnv - t_trigger detectorEnv) < 2 ^ 32"
    by (simp add: detectorEnv_def env_at_def activeDetector_def Seismograph_def)
  have "map durationMs ?S = [300 div 10 + 0]"
    using tm_synced_valid [of 5000]
    by (intro simulateEvent_records calculateEventDuration_1)
      (simp_all add: env_at_def readyDetector_def Seismograph_def)
  then have q: "map durationMs ?S = [30]" by simp
  then have q1: "hd ?S \<in> set ?S" by (cases ?S) simp_all
  have i: "\<not> eventActive readyDetector" by (simp add: readyDetector_def Seismograph_def)
  show ?thesis
    using event_duration_bounds [of "hd ?P" detectorEnv "sample_of 0.001 1200" activeDetector
        "0" "env_at tm_synced 5031 1767225605" 1]
      event_duration_bounds [of "hd ?S" "env_at tm_synced 5000 1767225605"
        "sample_of 0.001 1200" readyDetector 0 "env_at tm_synced 5031 1767225605" 1]
      p p1 w q q1 i
    by simp
qed

subsection \<open>Magnitude round trip\<close>

lemma tenth_power_bound: "(8224000000::real) \<le> 9.80665 ^ 10"
  by (simp add: power_divide)

lemma hundredth_power_bound:
  fixes y :: real
  assumes "8224000000 \<le> y ^ 10"
  shows "10 ^ 99 < y ^ 100"
proof -
  have "(10::real) ^ 99 < 8224000000 ^ 10" by simp
  also have "\<dots> \<le> (y ^ 10) ^ 10" using assms by (intro power_mono) simp_all
  also have "\<dots> = y ^ (10 * 10)" by (rule power_mult [symmetric])
  finally show ?thesis by simp
qed

lemma ten_powr_099: "(10::real) powr 0.99 < 9.80665"
proof -
  have "((10::real) powr 0.99) ^ 100 = 10 powr (of_nat 100 * 0.99)"
    by (rule powr_power) simp
  also have "of_nat 100 * (0.99::real) = of_nat 99" by simp
  also have "(10::real) powr (of_nat 99) = 10 ^ 99" by (rule powr_realpow) simp
  also have "\<dots> < (9.80665::real) ^ 100"
    by (rule hundredth_power_bound [OF tenth_power_bound])
  finally show ?thesis by (rule power_less_imp_less_base) simp
qed

lemma ten_powr_499: "(10::real) powr 4.99 < 98066.5"
proof -
  have "(4.99::real) = 4 + 0.99" by simp
  then have "(10::real) powr 4.99 = 10 powr 4 * 10 powr 0.99"
    by (simp only: powr_add)
  also have "\<dots> < 10 powr 4 * 9.80665"
    using ten_powr_099 by (intro mult_strict_left_mono) simp_all
  also have "\<dots> = 98066.5" by simp
  finally show ?thesis .
qed

lemma saturation_bounds: "4.99 < log 10 98066.5" "log 10 98066.5 < (5::real)"
proof -
  have "(10::real) powr 4.99 < 98066.5" by (rule ten_powr_499)
  then show "4.99 < log 10 98066.5" by (subst less_log_iff) simp_all
  have "(98066.5::real) < 10 powr 5" by simp
  then show "log 10 98066.5 < (5::real)" by (subst log_less_iff) simp_all
qed

lemma pga_unclamped:
  assumes "0 \<le> R" "R \<le> log 10 98066.5"
  shows "calculatePGAFromRichter R = 10 powr R / 9806.65"
proof -
  have r10: "R \<le> 10" using assms(2) saturation_bounds(2) by simp
  have "1 \<le> (10::real) powr R" using assms(1) by (intro ge_one_powr_ge_zero) simp_all
  then have lo: "\<not> 10 powr R / 9806.65 < (0.0001::real)" by simp
  have "10 powr R \<le> (98066.5::real)" using assms(2) by (simp add: le_log_iff)
  then have hi: "\<not> 10 powr R / 9806.65 > (10::real)" by simp
  show ?thesis using assms(1) r10 lo hi
    by (simp add: calculatePGAFromRichter_def constrain_def Let_def config_defs)
qed

lemma pga_saturated:
  assumes "log 10 98066.5 \<le> R"
  shows "calculatePGAFromRichter R = 10"
proof -
  define R2 where "R2 = (if R < - 2 \<or> R > 10 then constrain R (- 2) 10 else R)"
  have "log 10 98066.5 \<le> R2"
    using assms saturation_bounds(2) by (auto simp: R2_def constrain_def)
  then have "(98066.5::real) \<le> 10 powr R2" by (simp add: log_le_iff)
  then have "\<not> 10 powr R2 / 9806.65 < (0.0001::real)" "10 powr R2 / 9806.65 \<ge> (10::real)" by simp_all
  then show ?thesis
    unfolding calculatePGAFromRichter_def Let_def R2_def [symmetric]
    by (auto simp add: constrain_def config_defs)
qed

lemma richter_of_10: "calculateRichterMagnitude 10 = log 10 98066.5"
proof -
  have "- 2 < log 10 98066.5" "log 10 98066.5 < (10::real)"
    using saturation_bounds by simp_all
  then show ?thesis by (simp add: calculateRichterMagnitude_def constrain_def Let_def config_defs)
qed

text \<open>
  C7, as the specification states it: for every Richter value \<open>R\<close> from 0 to 8 the round
  trip through \<open>calculatePGAFromRichter\<close> and \<open>calculateRichterMagnitude\<close> returns \<open>R\<close> to
  within 0.001. This fails at \<open>R = 8\<close>: the acceleration is clamped to 10 g, and the way
  back gives \<open>log10(98066.5)\<close>, which is below 5.
\<close>

theorem richter_roundtrip_saturates:
  "(0::real) \<le> 8 \<and> (8::real) \<le> 8
   \<and> \<not> \<bar>calculateRichterMagnitude (calculatePGAFromRichter 8) - 8\<bar> \<le> 1 / 1000"
proof -
  have "log 10 98066.5 \<le> (8::real)" using saturation_bounds(2) by simp
  then have "calculatePGAFromRichter 8 = 10" by (rule pga_saturated)
  then have "calculateRichterMagnitude (calculatePGAFromRichter 8) = log 10 98066.5"
    by (simp only: richter_of_10)
  then show ?thesis using saturation_bounds(2) by simp
qed

text \<open>
  C7, amended: for every \<open>R\<close> from 0 to 4.99, and up to \<open>log10(98066.5)\<close>, the round trip
  returns \<open>R\<close> itself (floats as reals). For every larger \<open>R\<close> the acceleration is the
  upper clamp of 10 g and the round trip returns \<open>log10(98066.5)\<close>, which lies between
  4.99 and 5.
\<close>

theorem richter_roundtrip:
  "(0 \<le> R \<and> R \<le> 4.99 \<longrightarrow> calculateRichterMagnitude (calculatePGAFromRichter R) = R)
   \<and> (0 \<le> R \<and> R \<le> log 10 98066.5 \<longrightarrow> calculateRichterMagnitude (calculatePGAFromRichter R) = R)
   \<and> (log 10 98066.5 \<le> R \<longrightarrow>
        calculatePGAFromRichter R = 10
        \<and> calculateRichterMagnitude (calculatePGAFromRichter R) = log 10 98066.5)
   \<and> 4.99 < log 10 98066.5 \<and> log 10 98066.5 < (5::real)"
proof -
  have a: "calculateRichterMagnitude (calculatePGAFromRichter R) = R"
    if "0 \<le> R" "R \<le> log 10 98066.5"
  proof -
    have "log 10 (10 powr R / 9806.65 * 9806.65) = R" by simp
    moreover have "R \<le> 10" using that saturation_bounds(2) by simp
    ultimately show ?thesis using that
      by (simp add: pga_unclamped calculateRichterMagnitude_def constrain_def Let_def config_defs
          del: times_divide_eq_left)
  qed
  show ?thesis using a saturation_bounds pga_saturated [of R] richter_of_10 by auto
qed

theorem richter_roundtrip_witness:
  "(0::real) \<le> 4 \<and> (4::real) \<le> 4.99
   \<and> calculateRichterMagnitude (calculatePGAFromRichter 4) = 4
   \<and> log 10 98066.5 \<le> (8::real)
   \<and> calculatePGAFromRichter 8 = 10
   \<and> calculateRichterMagnitude (calculatePGAFromRichter 8) = log 10 98066.5"
proof -
  have a: "calculateRichterMagnitude (calculatePGAFromRichter 4) = 4"
    using richter_roundtrip [of 4] by simp
  have b: "log 10 98066.5 < (5::real)"
    using richter_roundtrip [of 8] by blast
  then have c: "log 10 98066.5 \<le> (8::real)" by simp
  have d: "calculatePGAFromRichter 8 = 10
     \<and> calculateRichterMagnitude (calculatePGAFromRichter 8) = log 10 98066.5"
    using richter_roundtrip [of 8] c by blast
  have n: "(0::real) \<le> 4 \<and> (4::real) \<le> 4.99" by simp
  show ?thesis using a c d n by blast
qed

subsection \<open>Adaptive thresholds\<close>

lemma updateAdaptiveThresholds_gate:
  "\<not> adaptiveThresholdEnabled s \<or> currentTime - lastAdaptiveUpdate s < 30000 \<Longrightarrow>
     updateAdaptiveThresholds currentTime s = s"
  "adaptiveThresholdEnabled s \<Longrightarrow> \<not> currentTime - lastAdaptiveUpdate s < 30000 \<Longrightarrow>
     \<not> ltaFull s \<Longrightarrow>
     updateAdaptiveThresholds currentTime s = s\<lparr>lastAdaptiveUpdate := currentTime\<rparr>"
  by (auto simp add: updateAdaptiveThresholds_def Let_def)

text \<open>What an update does when it runs: the noise is the average of the long window,
  replaced by 0.001 when it is below 0.0001; this agrees with a floor of 0.001 for
  averages below 0.0001 and from 0.001 upwards. Each threshold is its base times the
  factor \<open>1 + noise / THRESHOLD_MICRO\<close> clamped to 0.5 and 3, clamped to 0.5 and 3 times
  the base; the products are positive, so no default is substituted.\<close>

lemma constrain_pos: "0 < low \<Longrightarrow> 0 < (constrain x low high :: real) \<or> high < low"
  by (auto simp: constrain_def)

lemma updateAdaptiveThresholds_noise:
  assumes "adaptiveThresholdEnabled s" "\<not> currentTime - lastAdaptiveUpdate s < 30000" "ltaFull s"
  shows "backgroundNoise (updateAdaptiveThresholds currentTime s) =
           (if ltaSum s / real LTA_WINDOW < 0.0001 then 0.001 else ltaSum s / real LTA_WINDOW)"
  using assms by (simp add: updateAdaptiveThresholds_def Let_def isnan_def)

lemma floor_agrees:
  fixes lta :: real
  shows "lta < 0.0001 \<or> 0.001 \<le> lta \<Longrightarrow> (if lta < 0.0001 then 0.001 else lta) = max lta 0.001"
  by (auto simp: max_def)

lemma substituted_noise_pos:
  fixes lta :: real
  shows "0 < (if lta < 0.0001 then 0.001 else lta)"
  by auto

lemma updateAdaptiveThresholds_noise_floor:
  assumes "adaptiveThresholdEnabled s" "\<not> currentTime - lastAdaptiveUpdate s < 30000" "ltaFull s"
    "ltaSum s / real LTA_WINDOW < 0.0001 \<or> 0.001 \<le> ltaSum s / real LTA_WINDOW"
  shows "backgroundNoise (updateAdaptiveThresholds currentTime s) =
           max (ltaSum s / real LTA_WINDOW) 0.001"
  unfolding updateAdaptiveThresholds_noise [OF assms(1-3)]
  using assms(4) by (rule floor_agrees)

lemma updateAdaptiveThresholds_micro:
  assumes "adaptiveThresholdEnabled s" "\<not> currentTime - lastAdaptiveUpdate s < 30000" "ltaFull s"
  shows "adaptiveThresholdMicro (updateAdaptiveThresholds currentTime s) =
           constrain (THRESHOLD_MICRO *
               constrain (1 + backgroundNoise (updateAdaptiveThresholds currentTime s) / THRESHOLD_MICRO) 0.5 3)
             (THRESHOLD_MICRO * 0.5) (THRESHOLD_MICRO * 3)"
proof -
  define n where "n = backgroundNoise (updateAdaptiveThresholds currentTime s)"
  have n: "0 < n"
    unfolding n_def updateAdaptiveThresholds_noise [OF assms] by (rule substituted_noise_pos)
  define f where "f = constrain (1 + n / THRESHOLD_MICRO) 0.5 3"
  have f: "0 < f" using constrain_pos [of "0.5" "1 + n / THRESHOLD_MICRO" 3] by (simp add: f_def)
  have m: "\<not> THRESHOLD_MICRO * f \<le> 0" using f by (simp add: THRESHOLD_MICRO_def)
  have e: "adaptiveThresholdMicro (updateAdaptiveThresholds currentTime s) =
      (let lta = ltaSum s / real LTA_WINDOW;
           lta2 = (if lta < 0.0001 then 0.001 else lta);
           factor = constrain (if 0 < lta2 then 1 + lta2 / THRESHOLD_MICRO else 1) 0.5 3;
           micro = THRESHOLD_MICRO * factor;
           micro2 = (if micro \<le> 0 then THRESHOLD_MICRO else micro)
       in constrain micro2 (THRESHOLD_MICRO * 0.5) (THRESHOLD_MICRO * 3))"
    using assms by (simp add: updateAdaptiveThresholds_def Let_def isnan_def THRESHOLD_MICRO_def)
  have k: "(if ltaSum s / real LTA_WINDOW < 0.0001 then 0.001 else ltaSum s / real LTA_WINDOW) = n"
    by (simp only: n_def updateAdaptiveThresholds_noise [OF assms])
  show ?thesis
    unfolding e Let_def k n_def [symmetric]
    by (simp only: n if_True f_def [symmetric] m if_False)
qed

lemma updateAdaptiveThresholds_light:
  assumes "adaptiveThresholdEnabled s" "\<not> currentTime - lastAdaptiveUpdate s < 30000" "ltaFull s"
  shows "adaptiveThresholdLight (updateAdaptiveThresholds currentTime s) =
           constrain (THRESHOLD_LIGHT *
               constrain (1 + backgroundNoise (updateAdaptiveThresholds currentTime s) / THRESHOLD_MICRO) 0.5 3)
             (THRESHOLD_LIGHT * 0.5) (THRESHOLD_LIGHT * 3)"
proof -
  define n where "n = backgroundNoise (updateAdaptiveThresholds currentTime s)"
  have n: "0 < n"
    unfolding n_def updateAdaptiveThresholds_noise [OF assms] by (rule substituted_noise_pos)
  define f where "f = constrain (1 + n / THRESHOLD_MICRO) 0.5 3"
  have f: "0 < f" using constrain_pos [of "0.5" "1 + n / THRESHOLD_MICRO" 3] by (simp add: f_def)
  have m: "\<not> THRESHOLD_LIGHT * f \<le> 0" using f by (simp add:  THRESHOLD_MICRO_def THRESHOLD_LIGHT_def)
  have e: "adaptiveThresholdLight (updateAdaptiveThresholds currentTime s) =
      (let lta = ltaSum s / real LTA_WINDOW;
           lta2 = (if lta < 0.0001 then 0.001 else lta);
           factor = constrain (if 0 < lta2 then 1 + lta2 / THRESHOLD_MICRO else 1) 0.5 3;
           light = THRESHOLD_LIGHT * factor;
           light2 = (if light \<le> 0 then THRESHOLD_LIGHT else light)
       in constrain light2 (THRESHOLD_LIGHT * 0.5) (THRESHOLD_LIGHT * 3))"
    using assms by (simp add: updateAdaptiveThresholds_def Let_def isnan_def  THRESHOLD_MICRO_def THRESHOLD_LIGHT_def)
  have k: "(if ltaSum s / real LTA_WINDOW < 0.0001 then 0.001 else ltaSum s / real LTA_WINDOW) = n"
    by (simp only: n_def updateAdaptiveThresholds_noise [OF assms])
  show ?thesis
    unfolding e Let_def k n_def [symmetric]
    by (simp only: n if_True f_def [symmetric] m if_False)
qed

lemma updateAdaptiveThresholds_strong:
  assumes "adaptiveThresholdEnabled s" "\<not> currentTime - lastAdaptiveUpdate s < 30000" "ltaFull s"
  shows "adaptiveThresholdStrong (updateAdaptiveThresholds currentTime s) =
           constrain (THRESHOLD_STRONG *
               constrain (1 + backgroundNoise (updateAdaptiveThresholds currentTime s) / THRESHOLD_MICRO) 0.5 3)
             (THRESHOLD_STRONG * 0.5) (THRESHOLD_STRONG * 3)"
proof -
  define n where "n = backgroundNoise (updateAdaptiveThresholds currentTime s)"
  have n: "0 < n"
    unfolding n_def updateAdaptiveThresholds_noise [OF assms] by (rule substituted_noise_pos)
  define f where "f = constrain (1 + n / THRESHOLD_MICRO) 0.5 3"
  have f: "0 < f" using constrain_pos [of "0.5" "1 + n / THRESHOLD_MICRO" 3] by (simp add: f_def)
  have m: "\<not> THRESHOLD_STRONG * f \<le> 0" using f by (simp add:  THRESHOLD_MICRO_def THRESHOLD_STRONG_def)
  have e: "adaptiveThresholdStrong (updateAdaptiveThresholds currentTime s) =
      (let lta = ltaSum s / real LTA_WINDOW;
           lta2 = (if lta < 0.0001 then 0.001 else lta);
           factor = constrain (if 0 < lta2 then 1 + lta2 / THRESHOLD_MICRO else 1) 0.5 3;
           strong = THRESHOLD_STRONG * factor;
           strong2 = (if strong \<le> 0 then THRESHOLD_STRONG else strong)
       in constrain strong2 (THRESHOLD_STRONG * 0.5) (THRESHOLD_STRONG * 3))"
    using assms by (simp add: updateAdaptiveThresholds_def Let_def isnan_def  THRESHOLD_MICRO_def THRESHOLD_STRONG_def)
  have k: "(if ltaSum s / real LTA_WINDOW < 0.0001 then 0.001 else ltaSum s / real LTA_WINDOW) = n"
    by (simp only: n_def updateAdaptiveThresholds_noise [OF assms])
  show ?thesis
    unfolding e Let_def k n_def [symmetric]
    by (simp only: n if_True f_def [symmetric] m if_False)
qed

text \<open>
  C8: on an update the noise \<open>ltaSum / LTA_WINDOW\<close> is floored at 0.001, the factor is
  \<open>1 + noise / THRESHOLD_MICRO\<close> clamped to 0.5 and 3, and each threshold is its base
  times the factor. The code replaces the noise by 0.001 only when it is below 0.0001
  (its comment calls 0.001 the minimum background noise). For a detector whose long
  window averages 0.0005 g the update keeps 0.0005 as the noise: the factor is 1.5 and
  the thresholds are 0.0015, 0.0075 and 0.03, where the floor of the claim gives the
  noise 0.001, the factor 2 and the thresholds 0.002, 0.01 and 0.04.
\<close>

theorem adaptive_noise_below_floor:
  "adaptiveThresholdEnabled lowNoiseDetector \<and> ltaFull lowNoiseDetector
   \<and> ltaSum lowNoiseDetector / real LTA_WINDOW = 0.0005
   \<and> backgroundNoise (updateAdaptiveThresholds 30000 lowNoiseDetector) = 0.0005
   \<and> adaptiveThresholdMicro (updateAdaptiveThresholds 30000 lowNoiseDetector) = 0.0015
   \<and> adaptiveThresholdLight (updateAdaptiveThresholds 30000 lowNoiseDetector) = 0.0075
   \<and> adaptiveThresholdStrong (updateAdaptiveThresholds 30000 lowNoiseDetector) = 0.03"
  by (simp add: updateAdaptiveThresholds_def lowNoiseDetector_def Seismograph_def Let_def
      isnan_def constrain_def config_defs)

subsection \<open>Calibration\<close>

lemma sum_list_const: "sum_list (map (\<lambda>i. c) xs) = real (length xs) * c"
  by (induction xs) (simp_all add: algebra_simps)

lemma stdDev_const: "stdDev axis (map (\<lambda>i. r) [0 ..< 50]) = 0"
  by (simp add: stdDev_def Let_def comp_def sum_list_const)

lemma proposedOffset_const: "proposedOffset axis (map (\<lambda>i. r) [0 ..< 200]) = axis r"
  by (simp add: proposedOffset_def comp_def sum_list_const)

text \<open>
  C9: \<open>calibrate\<close> returns \<open>false\<close> exactly when the stability phase finds a standard
  deviation above 0.01 g on some axis or the validation finds the X or Y offset beyond
  0.5 g or the Z offset, which is the mean of the raw Z readings, outside 0.8 g to
  1.5 g. It then leaves the state as it was except that \<open>calibrationValid\<close> is false: the
  offsets applied before remain. On success the offsets are the proposed ones and
  \<open>calibrationValid\<close> is true.
\<close>

theorem calibrate_rejection:
  "fst (calibrate mpu now s) =
     (\<not> (stdDev compX (stabilityReadings mpu) > 0.01 \<or> stdDev compY (stabilityReadings mpu) > 0.01
          \<or> stdDev compZ (stabilityReadings mpu) > 0.01
          \<or> \<bar>proposedOffset compX (calibrationReadings mpu)\<bar> > 0.5
          \<or> \<bar>proposedOffset compY (calibrationReadings mpu)\<bar> > 0.5
          \<or> \<bar>proposedOffset compZ (calibrationReadings mpu)\<bar> < 0.8
          \<or> \<bar>proposedOffset compZ (calibrationReadings mpu)\<bar> > 1.5
          \<or> proposedOffset compZ (calibrationReadings mpu) < 0.8
          \<or> proposedOffset compZ (calibrationReadings mpu) > 1.5))
   \<and> (\<not> fst (calibrate mpu now s) \<longrightarrow>
        snd (calibrate mpu now s) = s\<lparr>calibrationValid := False\<rparr>)
   \<and> (fst (calibrate mpu now s) \<longrightarrow>
        calibrationValid (snd (calibrate mpu now s))
        \<and> offsetX (snd (calibrate mpu now s)) = proposedOffset compX (calibrationReadings mpu)
        \<and> offsetY (snd (calibrate mpu now s)) = proposedOffset compY (calibrationReadings mpu)
        \<and> offsetZ (snd (calibrate mpu now s)) = proposedOffset compZ (calibrationReadings mpu))"
  by (simp add: calibrate_def Let_def)

lemma calibrate_level:
  "fst (calibrate levelSensor 1000 Seismograph)"
  "offsetZ calibratedDetector = 1" "offsetX calibratedDetector = 0" "offsetY calibratedDetector = 0"
  "calibrationValid calibratedDetector"
  by (simp_all add: calibratedDetector_def calibrate_def Let_def stabilityReadings_def calibrationReadings_def levelSensor_def
    stdDev_const proposedOffset_const readingOf_def toG_def compX_def compY_def compZ_def)

theorem calibrate_rejection_witness:
  "\<not> fst (calibrate tiltedSensor 2000 calibratedDetector)
   \<and> \<bar>proposedOffset compY (calibrationReadings tiltedSensor)\<bar> > 0.5
   \<and> snd (calibrate tiltedSensor 2000 calibratedDetector) = calibratedDetector\<lparr>calibrationValid := False\<rparr>
   \<and> offsetZ (snd (calibrate tiltedSensor 2000 calibratedDetector)) = 1
   \<and> fst (calibrate levelSensor 1000 Seismograph)
   \<and> calibrationValid (snd (calibrate levelSensor 1000 Seismograph))
   \<and> offsetZ (snd (calibrate levelSensor 1000 Seismograph)) = 1"
proof -
  have p: "proposedOffset compY (calibrationReadings tiltedSensor) = 1"
    "proposedOffset compZ (calibrationReadings levelSensor) = 1"
    by (simp_all add: calibrationReadings_def tiltedSensor_def levelSensor_def proposedOffset_const
        readingOf_def toG_def compY_def compZ_def)
  have r: "\<not> fst (calibrate tiltedSensor 2000 calibratedDetector)"
    using calibrate_rejection [of tiltedSensor 2000 calibratedDetector] p by simp
  have "snd (calibrate tiltedSensor 2000 calibratedDetector) = calibratedDetector\<lparr>calibrationValid := False\<rparr>"
    using calibrate_rejection [of tiltedSensor 2000 calibratedDetector] r by blast
  moreover have "fst (calibrate levelSensor 1000 Seismograph)" by (rule calibrate_level(1))
  moreover have "calibrationValid (snd (calibrate levelSensor 1000 Seismograph))
     \<and> offsetZ (snd (calibrate levelSensor 1000 Seismograph)) = 1"
    using calibrate_rejection [of levelSensor 1000 Seismograph] calibrate_level(1) p by simp
  ultimately show ?thesis using r p calibrate_level(2) by simp
qed

end
